theory Spec2Isabelle
  imports Main "HOL-Library.Word"
begin

unbundle bit_operations_syntax

section \<open>Bytes, strings and errors\<close>

text \<open>
  A Go \<^verbatim>\<open>string\<close> and a \<^verbatim>\<open>[]byte\<close> are sequences of bytes. Text is kept as
  \<^typ>\<open>string\<close> (one \<^typ>\<open>char\<close> per byte), binary data as a list of 8-bit words.
  Every error value of the Go code that a branch depends on is a constructor of
  \<open>error\<close>; a \<^verbatim>\<open>nil\<close> error is \<open>None\<close>.
\<close>

type_synonym byte = "8 word"

datatype error =
    EOF
  | ErrUnexpectedEOF
  | ErrClosed
  | ErrNotExist
  | ErrCreate
  | ErrExec
  | ErrWatch
  | ErrRel
  | ErrQueueFull
  | ErrMarshal

definition bytes_of :: "string \<Rightarrow> byte list" where
  "bytes_of s = map of_char s"

section \<open>package strings and path/filepath\<close>

text \<open>
  The library functions the code calls, on byte strings. \<open>strings_Split\<close> is
  \<^verbatim>\<open>strings.Split\<close> for a separator of one byte (the code splits on the line feed
  and on the path separator): a string with \<open>n\<close> separators gives \<open>n + 1\<close> pieces, the
  empty string gives one empty piece.
\<close>

fun strings_Split :: "string \<Rightarrow> char \<Rightarrow> string list" where
  "strings_Split [] sep = [[]]"
| "strings_Split (c # cs) sep =
     (if c = sep then [] # strings_Split cs sep
      else (case strings_Split cs sep of
              [] \<Rightarrow> [[c]]
            | x # xs \<Rightarrow> (c # x) # xs))"

definition strings_HasPrefix :: "string \<Rightarrow> string \<Rightarrow> bool" where
  "strings_HasPrefix s prefix = (length prefix \<le> length s \<and> take (length prefix) s = prefix)"

definition strings_HasSuffix :: "string \<Rightarrow> string \<Rightarrow> bool" where
  "strings_HasSuffix s suffix =
     (length suffix \<le> length s \<and> drop (length s - length suffix) s = suffix)"

text \<open>
  \<^verbatim>\<open>strings.TrimSpace\<close> cuts the leading and the trailing white space of a string,
  as \<^verbatim>\<open>unicode.IsSpace\<close> defines it: the code points U+0009 to U+000D, U+0020,
  U+0085, U+00A0, U+1680, U+2000 to U+200A, U+2028, U+2029, U+202F, U+205F and U+3000.
  A Go string is a sequence of bytes, read as UTF-8; \<open>white_space\<close> lists the UTF-8
  encoding of each of these code points.

  The library decodes one code point at a time, from the left with
  \<^verbatim>\<open>utf8.DecodeRuneInString\<close> and from the right with
  \<^verbatim>\<open>utf8.DecodeLastRuneInString\<close>. A decoder returns a code point of the list
  exactly when the bytes it starts at (ends at) are the encoding of that code point:
  UTF-8 admits one encoding of a code point, a longer form is refused, and bytes that
  are no valid encoding are read as U+FFFD, one byte wide, which is not white space.
  No encoding of the list starts or ends with another one, so at most one of them
  matches at either end. \<open>TrimLeftFunc\<close> and \<open>TrimRightFunc\<close> are
  \<^verbatim>\<open>strings.TrimLeftFunc\<close> and \<^verbatim>\<open>strings.TrimRightFunc\<close> for the predicate
  \<^verbatim>\<open>unicode.IsSpace\<close>, and \<open>strings_TrimSpace\<close> is their composition, as in
  \<^verbatim>\<open>strings.TrimFunc\<close>. (The library first skips the one-byte white space in a
  loop of its own and calls these functions on the rest as soon as it meets a byte
  above 0x7F; the result is the same.)
\<close>

definition white_space :: "string list" where
  "white_space =
     [[CHR 0x09], [CHR 0x0A], [CHR 0x0B], [CHR 0x0C], [CHR 0x0D], [CHR 0x20],
      [CHR 0xC2, CHR 0x85], [CHR 0xC2, CHR 0xA0],
      [CHR 0xE1, CHR 0x9A, CHR 0x80],
      [CHR 0xE2, CHR 0x80, CHR 0x80], [CHR 0xE2, CHR 0x80, CHR 0x81],
      [CHR 0xE2, CHR 0x80, CHR 0x82], [CHR 0xE2, CHR 0x80, CHR 0x83],
      [CHR 0xE2, CHR 0x80, CHR 0x84], [CHR 0xE2, CHR 0x80, CHR 0x85],
      [CHR 0xE2, CHR 0x80, CHR 0x86], [CHR 0xE2, CHR 0x80, CHR 0x87],
      [CHR 0xE2, CHR 0x80, CHR 0x88], [CHR 0xE2, CHR 0x80, CHR 0x89],
      [CHR 0xE2, CHR 0x80, CHR 0x8A],
      [CHR 0xE2, CHR 0x80, CHR 0xA8], [CHR 0xE2, CHR 0x80, CHR 0xA9],
      [CHR 0xE2, CHR 0x80, CHR 0xAF],
      [CHR 0xE2, CHR 0x81, CHR 0x9F],
      [CHR 0xE3, CHR 0x80, CHR 0x80]]"

lemma find_white_space: "find P white_space = Some p \<Longrightarrow> 0 < length p \<and> P p"
proof -
  have "\<forall>q\<in>set white_space. 0 < length q"
    by (simp add: white_space_def)
  then show "find P white_space = Some p \<Longrightarrow> 0 < length p \<and> P p"
    by (metis find_Some_iff nth_mem)
qed

function TrimLeftFunc :: "string \<Rightarrow> string" where
  "TrimLeftFunc s =
     (case find (strings_HasPrefix s) white_space of
        None \<Rightarrow> s
      | Some p \<Rightarrow> TrimLeftFunc (drop (length p) s))"
  by pat_completeness auto
termination
proof (relation "measure length")
  fix s p
  assume "find (strings_HasPrefix s) white_space = Some p"
  then have "0 < length p" "length p \<le> length s"
    by (auto dest!: find_white_space simp: strings_HasPrefix_def)
  then show "(drop (length p) s, s) \<in> measure length"
    by (cases s) simp_all
qed simp

function TrimRightFunc :: "string \<Rightarrow> string" where
  "TrimRightFunc s =
     (case find (strings_HasSuffix s) white_space of
        None \<Rightarrow> s
      | Some p \<Rightarrow> TrimRightFunc (take (length s - length p) s))"
  by pat_completeness auto
termination
proof (relation "measure length")
  fix s p
  assume "find (strings_HasSuffix s) white_space = Some p"
  then have "0 < length p" "length p \<le> length s"
    by (auto dest!: find_white_space simp: strings_HasSuffix_def)
  then show "(take (length s - length p) s, s) \<in> measure length"
    by (cases s) simp_all
qed simp

declare TrimLeftFunc.simps [simp del] TrimRightFunc.simps [simp del]

definition strings_TrimSpace :: "string \<Rightarrow> string" where
  "strings_TrimSpace s = TrimRightFunc (TrimLeftFunc s)"

text \<open>A string starts (ends) with white space.\<close>

definition space_prefix :: "string \<Rightarrow> bool" where
  "space_prefix s = (\<exists>p\<in>set white_space. strings_HasPrefix s p)"

definition space_suffix :: "string \<Rightarrow> bool" where
  "space_suffix s = (\<exists>p\<in>set white_space. strings_HasSuffix s p)"

fun strings_Contains :: "string \<Rightarrow> string \<Rightarrow> bool" where
  "strings_Contains [] substr = (substr = [])"
| "strings_Contains (c # cs) substr =
     (strings_HasPrefix (c # cs) substr \<or> strings_Contains cs substr)"

text \<open>
  \<^verbatim>\<open>filepath.Base\<close>: the last element of the path, after trailing separators are
  cut; \<open>.\<close> for the empty path and the separator for a path of separators only.
\<close>

definition filepath_Base :: "string \<Rightarrow> string" where
  "filepath_Base path =
     (if path = [] then ''.''
      else
        let stripped = rev (dropWhile (\<lambda>c. c = CHR ''/'') (rev path));
            base = rev (takeWhile (\<lambda>c. c \<noteq> CHR ''/'') (rev stripped))
        in if base = [] then ''/'' else base)"

section \<open>package audio: the container header\<close>

text \<open>
  \<^verbatim>\<open>binary.Write(file, binary.LittleEndian, v)\<close> lays the fields of \<open>v\<close> out in
  declaration order, each fixed-size integer least significant byte first.
\<close>

definition le16 :: "16 word \<Rightarrow> byte list" where
  "le16 w = [ucast w, ucast (drop_bit 8 w)]"

definition le32 :: "32 word \<Rightarrow> byte list" where
  "le32 w = [ucast w, ucast (drop_bit 8 w), ucast (drop_bit 16 w), ucast (drop_bit 24 w)]"

text \<open>\<^verbatim>\<open>binary.LittleEndian.Uint32(b)\<close>, for reading a size field back.\<close>

definition LittleEndian_Uint32 :: "byte list \<Rightarrow> 32 word" where
  "LittleEndian_Uint32 b =
     ucast (b ! 0) OR push_bit 8 (ucast (b ! 1)) OR push_bit 16 (ucast (b ! 2))
       OR push_bit 24 (ucast (b ! 3))"

definition recordingSampleRate :: "32 word" where
  "recordingSampleRate = 44100"

definition channels :: "16 word" where
  "channels = 1"

definition bitsPerSample :: "16 word" where
  "bitsPerSample = 16"

record WavHeader =
  ChunkID :: "byte list"
  ChunkSize :: "32 word"
  Format :: "byte list"
  Subchunk1ID :: "byte list"
  Subchunk1Size :: "32 word"
  AudioFormat :: "16 word"
  NumChannels :: "16 word"
  SampleRate :: "32 word"
  ByteRate :: "32 word"
  BlockAlign :: "16 word"
  BitsPerSample :: "16 word"
  Subchunk2ID :: "byte list"
  Subchunk2Size :: "32 word"

definition binary_Write_WavHeader :: "WavHeader \<Rightarrow> byte list" where
  "binary_Write_WavHeader h =
     ChunkID h @ le32 (ChunkSize h) @ Format h @ Subchunk1ID h @ le32 (Subchunk1Size h)
       @ le16 (AudioFormat h) @ le16 (NumChannels h) @ le32 (SampleRate h)
       @ le32 (ByteRate h) @ le16 (BlockAlign h) @ le16 (BitsPerSample h)
       @ Subchunk2ID h @ le32 (Subchunk2Size h)"

section \<open>The file system and subprocesses\<close>

text \<open>
  An \<^verbatim>\<open>*os.File\<close> is an index into \<open>fds\<close>, the table of every descriptor the
  process has opened; the entry keeps the name the file was opened under, the offset of
  the next write and whether \<^verbatim>\<open>Close\<close> has been called. \<open>files\<close> maps a path to the
  bytes stored under it. Directories are not represented (\<^verbatim>\<open>os.MkdirAll\<close> has no
  effect here). \<open>cmds\<close> lists the subprocesses run so far, each with its argument
  vector and with what its input file held when it ran (\<open>None\<close>: no such file).

  Failures of the medium (disk full, I/O error) are not modelled: an operation fails
  exactly when its descriptor is closed or its path does not exist. The connection
  handler removes or renames a path only after closing the descriptor it holds for it,
  so a write through a descriptor whose path has gone (reported as \<open>ErrNotExist\<close>) is never
  reached by it.
\<close>

record os_File =
  fname :: string
  offset :: nat
  closed :: bool

record Cmd =
  Args :: "string list"
  input_seen :: "byte list option"

record world =
  files :: "string \<rightharpoonup> byte list"
  fds :: "os_File list"
  cmds :: "Cmd list"

definition is_open :: "world \<Rightarrow> nat \<Rightarrow> bool" where
  "is_open w h = (h < length (fds w) \<and> \<not> closed (fds w ! h))"

text \<open>\<^verbatim>\<open>file.Name()\<close>; it also answers for a closed file.\<close>

definition File_Name :: "world \<Rightarrow> nat \<Rightarrow> string" where
  "File_Name w h = (if h < length (fds w) then fname (fds w ! h) else [])"

text \<open>\<^verbatim>\<open>os.Create\<close>: the file is created, or truncated when it exists.\<close>

definition os_Create :: "world \<Rightarrow> string \<Rightarrow> world \<times> nat" where
  "os_Create w p =
     (w\<lparr>files := (files w)(p \<mapsto> []),
        fds := fds w @ [\<lparr>fname = p, offset = 0, closed = False\<rparr>]\<rparr>,
      length (fds w))"

text \<open>Writing \<open>bs\<close> at offset \<open>off\<close>; a gap beyond the end of the file reads as zeros.\<close>

definition pwrite :: "byte list \<Rightarrow> nat \<Rightarrow> byte list \<Rightarrow> byte list" where
  "pwrite c off bs =
     take off c @ replicate (off - length c) 0 @ bs @ drop (off + length bs) c"

definition File_Write :: "world \<Rightarrow> nat \<Rightarrow> byte list \<Rightarrow> world \<times> error option" where
  "File_Write w h bs =
     (if \<not> is_open w h then (w, Some ErrClosed)
      else
        let f = fds w ! h in
        (case files w (fname f) of
           None \<Rightarrow> (w, Some ErrNotExist)
         | Some c \<Rightarrow>
             (w\<lparr>files := (files w)(fname f \<mapsto> pwrite c (offset f) bs),
                fds := (fds w)[h := f\<lparr>offset := offset f + length bs\<rparr>]\<rparr>,
              None)))"

text \<open>\<^verbatim>\<open>file.Seek(off, 0)\<close>: the offset is counted from the start of the file.\<close>

definition File_Seek :: "world \<Rightarrow> nat \<Rightarrow> nat \<Rightarrow> world \<times> error option" where
  "File_Seek w h off =
     (if \<not> is_open w h then (w, Some ErrClosed)
      else (w\<lparr>fds := (fds w)[h := (fds w ! h)\<lparr>offset := off\<rparr>]\<rparr>, None))"

definition File_Close :: "world \<Rightarrow> nat \<Rightarrow> world \<times> error option" where
  "File_Close w h =
     (if \<not> is_open w h then (w, Some ErrClosed)
      else (w\<lparr>fds := (fds w)[h := (fds w ! h)\<lparr>closed := True\<rparr>]\<rparr>, None))"

definition os_Remove :: "world \<Rightarrow> string \<Rightarrow> world \<times> error option" where
  "os_Remove w p =
     (case files w p of
        None \<Rightarrow> (w, Some ErrNotExist)
      | Some c \<Rightarrow> (w\<lparr>files := (files w)(p := None)\<rparr>, None))"

definition os_Rename :: "world \<Rightarrow> string \<Rightarrow> string \<Rightarrow> world \<times> error option" where
  "os_Rename w old new =
     (case files w old of
        None \<Rightarrow> (w, Some ErrNotExist)
      | Some c \<Rightarrow> (w\<lparr>files := ((files w)(old := None))(new \<mapsto> c)\<rparr>, None))"

subsection \<open>WriteWavHeader and UpdateWavHeader\<close>

definition mkWavHeader :: "32 word \<Rightarrow> WavHeader" where
  "mkWavHeader dataSize =
     \<lparr>ChunkID = bytes_of ''RIFF'',
      ChunkSize = dataSize + 36,
      Format = bytes_of ''WAVE'',
      Subchunk1ID = bytes_of ''fmt '',
      Subchunk1Size = 16,
      AudioFormat = 1,
      NumChannels = channels,
      SampleRate = recordingSampleRate,
      ByteRate = recordingSampleRate * ucast channels * ucast bitsPerSample div 8,
      BlockAlign = channels * bitsPerSample div 8,
      BitsPerSample = bitsPerSample,
      Subchunk2ID = bytes_of ''data'',
      Subchunk2Size = dataSize\<rparr>"

definition WriteWavHeader :: "world \<Rightarrow> nat \<Rightarrow> 32 word \<Rightarrow> world \<times> error option" where
  "WriteWavHeader w file dataSize = File_Write w file (binary_Write_WavHeader (mkWavHeader dataSize))"

definition UpdateWavHeader :: "world \<Rightarrow> nat \<Rightarrow> 32 word \<Rightarrow> world \<times> error option" where
  "UpdateWavHeader w file dataSize =
     (case File_Seek w file 4 of
        (w1, Some e) \<Rightarrow> (w1, Some e)
      | (w1, None) \<Rightarrow>
     (case File_Write w1 file (le32 (dataSize + 36)) of
        (w2, Some e) \<Rightarrow> (w2, Some e)
      | (w2, None) \<Rightarrow>
     (case File_Seek w2 file 40 of
        (w3, Some e) \<Rightarrow> (w3, Some e)
      | (w3, None) \<Rightarrow>
     (case File_Write w3 file (le32 dataSize) of
        (w4, Some e) \<Rightarrow> (w4, Some e)
      | (w4, None) \<Rightarrow> (w4, None)))))"

subsection \<open>ResampleForWhisper\<close>

text \<open>
  The slice expression \<^verbatim>\<open>inputPath[:len(inputPath)-4]\<close> panics (slice bounds out of
  range) when the path has fewer than four bytes; \<open>None\<close> is that panic.
\<close>

definition whisperPath :: "string \<Rightarrow> string option" where
  "whisperPath inputPath =
     (if length inputPath < 4 then None
      else Some (take (length inputPath - 4) inputPath @ ''_whisper.wav''))"

text \<open>
  The transcoder is an external program. \<open>ffmpeg p c\<close> is what a run on input path \<open>p\<close>
  holding \<open>c\<close> (\<open>None\<close>: no such file) leaves in the output file, or \<open>None\<close> when the run
  fails. The result of \<open>ResampleForWhisper\<close> is \<open>None\<close> when it panics. The argument
  \<open>''16000''\<close> is \<^verbatim>\<open>fmt.Sprintf("%d", whisperSampleRate)\<close>.
\<close>

definition ResampleForWhisper ::
  "(string \<Rightarrow> byte list option \<Rightarrow> byte list option) \<Rightarrow> world \<Rightarrow> string
     \<Rightarrow> (world \<times> error option) option" where
  "ResampleForWhisper ffmpeg w inputPath =
     (case whisperPath inputPath of
        None \<Rightarrow> None
      | Some outputPath \<Rightarrow>
          let w1 = w\<lparr>cmds := cmds w @
                  [\<lparr>Args = [''ffmpeg'', ''-i'', inputPath, ''-ar'', ''16000'', ''-ac'', ''1'',
                            ''-y'', outputPath],
                    input_seen = files w inputPath\<rparr>]\<rparr>
          in (case ffmpeg inputPath (files w inputPath) of
                None \<Rightarrow> Some (w1, Some ErrExec)
              | Some out \<Rightarrow>
                  Some (fst (os_Remove (w1\<lparr>files := (files w1)(outputPath \<mapsto> out)\<rparr>) inputPath),
                        None)))"


text \<open>
  The 44 descriptor bytes for data size \<open>d\<close>, field by field: the \<open>RIFF\<close> tag, the total
  size, the \<open>WAVE\<close> and \<open>fmt\<close> tags, the size of the format block (16), the PCM format
  tag (1), the channel count (1), the sample rate, the byte rate, the block alignment,
  the bits per sample, the \<open>data\<close> tag and the data size.
\<close>

definition descriptor :: "32 word \<Rightarrow> byte list" where
  "descriptor d =
     bytes_of ''RIFF'' @ le32 (d + 36) @ bytes_of ''WAVE'' @ bytes_of ''fmt '' @ le32 16
       @ le16 1 @ le16 1 @ le32 44100 @ le32 88200 @ le16 2 @ le16 16
       @ bytes_of ''data'' @ le32 d"

section \<open>package libaserv: the connection handler\<close>

subsection \<open>Reading the connection\<close>

text \<open>
  The connection is the list of bytes the peer sends before it closes.
  \<^verbatim>\<open>io.ReadFull(conn, buf)\<close> for a buffer of \<open>n\<close> bytes returns the next \<open>n\<close> bytes
  and what is left unread; it fails with \<open>EOF\<close> when nothing is left and with
  \<open>ErrUnexpectedEOF\<close> when fewer than \<open>n\<close> bytes are.
\<close>

definition io_ReadFull :: "byte list \<Rightarrow> nat \<Rightarrow> error + (byte list \<times> byte list)" where
  "io_ReadFull c n =
     (if n \<le> length c then Inr (take n c, drop n c)
      else if c = [] then Inl EOF
      else Inl ErrUnexpectedEOF)"

definition BigEndian_Uint32 :: "byte list \<Rightarrow> 32 word" where
  "BigEndian_Uint32 b =
     ucast (b ! 3) OR push_bit 8 (ucast (b ! 2)) OR push_bit 16 (ucast (b ! 1))
       OR push_bit 24 (ucast (b ! 0))"

text \<open>\<^verbatim>\<open>binary.BigEndian.PutUint32\<close>, with which the peer writes a prefix.\<close>

definition BigEndian_PutUint32 :: "32 word \<Rightarrow> byte list" where
  "BigEndian_PutUint32 v = [ucast (drop_bit 24 v), ucast (drop_bit 16 v), ucast (drop_bit 8 v), ucast v]"

subsection \<open>The environment and the state of a handler\<close>

text \<open>
  What the handler gets from outside, as parameters. \<open>clock k\<close> is what the \<open>k\<close>-th call
  of \<^verbatim>\<open>time.Now()\<close> returns, in nanoseconds (the zero \<^verbatim>\<open>time.Time\<close> is 0);
  \<open>Format_day\<close> and \<open>Format_hms\<close> print a time with the layouts \<open>20060102\<close> and \<open>150405\<close>;
  \<open>MkdirAll_fails\<close> and \<open>Create_fails\<close> tell whether creating the directories or the
  file fails, asked with the number of clock readings taken so far; \<open>ffmpeg\<close> is the
  transcoder; \<open>ctx_Done k\<close> tells whether the context is found cancelled at the \<open>k\<close>-th
  poll; \<open>Write_fails\<close> tells whether writing the endpoint id to the peer fails. The
  endpoint id is given by its 16 bytes and by its printed form.
\<close>

record env =
  clock :: "nat \<Rightarrow> int"
  Format_day :: "int \<Rightarrow> string"
  Format_hms :: "int \<Rightarrow> string"
  MkdirAll_fails :: "nat \<Rightarrow> bool"
  Create_fails :: "nat \<Rightarrow> bool"
  ffmpeg :: "string \<Rightarrow> byte list option \<Rightarrow> byte list option"
  ctx_Done :: "nat \<Rightarrow> bool"
  Write_fails :: bool
  clientID_bytes :: "byte list"
  clientID_String :: string

text \<open>
  The state a handler works on: the connection (\<open>conn_in\<close> unread, \<open>conn_out\<close> written,
  \<open>conn_closed\<close>), the endpoint registry, the four local variables of
  \<open>handleConnection\<close> (the variable \<^verbatim>\<open>file\<close> is \<open>wavfile\<close> here), the file system, and
  the numbers of clock readings and of context polls so far.
\<close>

record handler =
  conn_in :: "byte list"
  conn_out :: "byte list"
  conn_closed :: bool
  clientList :: "string set"
  transmissionBuffer :: "byte list"
  isReceivingTransmission :: bool
  wavfile :: "nat option"
  transmissionStartTime :: int
  os :: world
  now_calls :: nat
  polls :: nat

definition time_Now :: "env \<Rightarrow> handler \<Rightarrow> int \<times> handler" where
  "time_Now e s = (clock e (now_calls s), s\<lparr>now_calls := Suc (now_calls s)\<rparr>)"

text \<open>
  A \<^verbatim>\<open>time.Duration\<close> is a signed 64-bit count of nanoseconds; a difference of
  times outside its range is replaced by the nearest bound.
\<close>

definition Second :: int where
  "Second = 1000000000"

definition saturate :: "int \<Rightarrow> int" where
  "saturate d = max (- (2 ^ 63)) (min (2 ^ 63 - 1) d)"

definition time_Since :: "env \<Rightarrow> int \<Rightarrow> handler \<Rightarrow> int \<times> handler" where
  "time_Since e t s = (case time_Now e s of (now, s') \<Rightarrow> (saturate (now - t), s'))"

subsection \<open>Creating, finishing and abandoning a file\<close>

text \<open>
  \<open>createWavFile\<close>, with \<open>updateCurrentDay\<close> inlined: the day is read from the clock, and
  after the update \<open>currentDay\<close> is that day. The printed times hold digits only, so
  \<^verbatim>\<open>filepath.Join\<close> is concatenation with the separator. The result \<open>None\<close> is
  \<^verbatim>\<open>(nil, err)\<close>.
\<close>

definition createWavFile :: "env \<Rightarrow> handler \<Rightarrow> handler \<times> nat option" where
  "createWavFile e s =
     (case time_Now e s of (today, s1) \<Rightarrow>
        let clientDir = ''recordings/'' @ Format_day e today @ ''/'' @ clientID_String e in
        if MkdirAll_fails e (now_calls s1) then (s1, None)
        else
          (case time_Now e s1 of (t, s2) \<Rightarrow>
             let filename = ''audio_'' @ Format_hms e t @ ''.wav'' in
             if Create_fails e (now_calls s2) then (s2, None)
             else
               (case os_Create (os s2) (clientDir @ ''/'' @ filename) of
                  (w, h) \<Rightarrow> (s2\<lparr>os := w\<rparr>, Some h))))"

definition startFile :: "env \<Rightarrow> handler \<Rightarrow> handler \<times> error option" where
  "startFile e s =
     (case createWavFile e s of
        (s1, None) \<Rightarrow> (s1\<lparr>wavfile := None\<rparr>, Some ErrCreate)
      | (s1, Some h) \<Rightarrow>
          (case WriteWavHeader (os s1) h 0 of
             (w, Some err) \<Rightarrow> (s1\<lparr>wavfile := Some h, os := w\<rparr>, Some err)
           | (w, None) \<Rightarrow> (s1\<lparr>wavfile := Some h, os := w\<rparr>, None)))"

text \<open>
  \<open>finishCurrentFile\<close>. The errors of \<open>UpdateWavHeader\<close> and \<open>ResampleForWhisper\<close> are
  logged and otherwise ignored. The second component of the result tells whether
  \<open>ResampleForWhisper\<close> panicked; the state is then the one at the panic. The conversion
  \<^verbatim>\<open>uint32(len(transmissionBuffer))\<close> keeps the low 32 bits.
\<close>

definition finishCurrentFile :: "env \<Rightarrow> handler \<Rightarrow> handler \<times> bool" where
  "finishCurrentFile e s =
     (case wavfile s of
        None \<Rightarrow> (s, False)
      | Some h \<Rightarrow>
          let w1 = fst (UpdateWavHeader (os s) h (of_nat (length (transmissionBuffer s))));
              fileName = File_Name w1 h;
              w2 = fst (File_Close w1 h)
          in (case ResampleForWhisper (ffmpeg e) w2 fileName of
                None \<Rightarrow> (s\<lparr>wavfile := None, os := w2\<rparr>, True)
              | Some (w3, err) \<Rightarrow> (s\<lparr>wavfile := None, os := w3\<rparr>, False)))"

definition handleIncompleteTransmission :: "env \<Rightarrow> nat \<Rightarrow> int \<Rightarrow> handler \<Rightarrow> handler" where
  "handleIncompleteTransmission e h startTime s =
     (case time_Since e startTime s of (transmissionDuration, s1) \<Rightarrow>
        if transmissionDuration < Second then
          let w1 = fst (File_Close (os s1) h);
              w2 = fst (os_Remove w1 (File_Name w1 h))
          in s1\<lparr>os := w2\<rparr>
        else
          let w1 = fst (File_Close (os s1) h);
              newName = File_Name w1 h @ ''.incomplete'';
              w2 = fst (os_Rename w1 (File_Name w1 h) newName)
          in s1\<lparr>os := w2\<rparr>)"

subsection \<open>The loop\<close>

text \<open>
  One pass through the body of the \<^verbatim>\<open>for\<close> loop either goes on to the next pass,
  returns from \<open>handleConnection\<close>, or panics.
\<close>

datatype 'a outcome = Continue 'a | Return 'a | Panic 'a

text \<open>The \<^verbatim>\<open>select\<close> on \<^verbatim>\<open>ctx.Done()\<close> that ends the body.\<close>

definition ctx_poll :: "env \<Rightarrow> handler \<Rightarrow> handler outcome" where
  "ctx_poll e s =
     (if ctx_Done e (polls s) then Return (s\<lparr>polls := Suc (polls s)\<rparr>)
      else Continue (s\<lparr>polls := Suc (polls s)\<rparr>))"

definition iteration :: "env \<Rightarrow> handler \<Rightarrow> handler outcome" where
  "iteration e s =
     (case io_ReadFull (conn_in s) 4 of
        Inl err \<Rightarrow>
          let s0 = s\<lparr>conn_in := []\<rparr> in
          (case wavfile s0 of
             Some h \<Rightarrow>
               if isReceivingTransmission s0
               then Return (handleIncompleteTransmission e h (transmissionStartTime s0) s0)
               else Return s0
           | None \<Rightarrow> Return s0)
      | Inr (marker, rest) \<Rightarrow>
          let s0 = s\<lparr>conn_in := rest\<rparr> in
          if BigEndian_Uint32 marker = 0xFFFFFFFF then
            (case time_Now e (s0\<lparr>isReceivingTransmission := True, transmissionBuffer := []\<rparr>) of
               (now, s1) \<Rightarrow>
                 (case startFile e (s1\<lparr>transmissionStartTime := now\<rparr>) of
                    (s2, Some err) \<Rightarrow> Return s2
                  | (s2, None) \<Rightarrow> ctx_poll e s2))
          else if BigEndian_Uint32 marker = 0x00000000 then
            (case time_Since e (transmissionStartTime s0) (s0\<lparr>isReceivingTransmission := False\<rparr>) of
               (transmissionDuration, s1) \<Rightarrow>
                 if transmissionDuration < Second then
                   (case wavfile s1 of
                      Some h \<Rightarrow>
                        let w1 = fst (File_Close (os s1) h);
                            w2 = fst (os_Remove w1 (File_Name w1 h))
                        in ctx_poll e (s1\<lparr>os := w2\<rparr>)
                    | None \<Rightarrow> ctx_poll e s1)
                 else
                   (case finishCurrentFile e s1 of
                      (s2, True) \<Rightarrow> Panic s2
                    | (s2, False) \<Rightarrow> ctx_poll e s2))
          else if isReceivingTransmission s0 then
            let chunkSize = unat (BigEndian_Uint32 marker) in
            (case io_ReadFull (conn_in s0) chunkSize of
               Inl err \<Rightarrow> Return (s0\<lparr>conn_in := []\<rparr>)
             | Inr (chunkData, rest') \<Rightarrow>
                 let s1 = s0\<lparr>conn_in := rest',
                             transmissionBuffer := transmissionBuffer s0 @ chunkData\<rparr>
                 in (case wavfile s1 of
                       Some h \<Rightarrow> ctx_poll e (s1\<lparr>os := fst (File_Write (os s1) h chunkData)\<rparr>)
                     | None \<Rightarrow> ctx_poll e s1))
          else ctx_poll e s0)"

text \<open>
  A pass that goes on has consumed the four bytes of a prefix, and nothing it calls
  gives bytes back to the connection; this is what makes the loop end.
\<close>

lemma conn_in_createWavFile: "createWavFile e s = (s', r) \<Longrightarrow> conn_in s' = conn_in s"
  by (auto simp add: createWavFile_def time_Now_def Let_def split: prod.splits if_splits)

lemma conn_in_startFile: "startFile e s = (s', r) \<Longrightarrow> conn_in s' = conn_in s"
  by (auto simp add: startFile_def split: prod.splits option.splits dest: conn_in_createWavFile)

lemma conn_in_finishCurrentFile: "finishCurrentFile e s = (s', r) \<Longrightarrow> conn_in s' = conn_in s"
  by (auto simp add: finishCurrentFile_def Let_def split: option.splits)

lemma conn_in_ctx_poll: "ctx_poll e s = Continue s' \<Longrightarrow> conn_in s' = conn_in s"
  by (auto simp add: ctx_poll_def split: if_splits)

lemma io_ReadFull_Inr:
  "io_ReadFull c n = Inr (a, b) \<Longrightarrow> length b = length c - n \<and> n \<le> length c"
  by (auto simp add: io_ReadFull_def split: if_splits)

lemma iteration_Continue_shorter:
  assumes "iteration e s = Continue s'"
  shows "length (conn_in s') < length (conn_in s)"
proof (cases "io_ReadFull (conn_in s) 4")
  case (Inl err)
  then show ?thesis
    using assms by (simp add: iteration_def Let_def split: option.splits if_splits)
next
  case (Inr r)
  obtain marker rest where r: "r = (marker, rest)"
    by (cases r)
  have len: "length rest = length (conn_in s) - 4" "4 \<le> length (conn_in s)"
    using io_ReadFull_Inr[of "conn_in s" 4 marker rest] Inr r by simp_all
  have "length (conn_in s') \<le> length rest"
    using assms Inr r
    by (auto simp add: iteration_def Let_def time_Now_def time_Since_def
        split: prod.splits option.splits if_splits sum.splits bool.splits
        dest!: conn_in_startFile conn_in_finishCurrentFile conn_in_ctx_poll io_ReadFull_Inr)
  then show ?thesis
    using len by simp
qed

text \<open>
  The loop runs until a pass returns or panics. Every pass that goes on has read at
  least the four bytes of a prefix, so on a connection that ends the loop ends.
\<close>

function loop :: "env \<Rightarrow> handler \<Rightarrow> handler outcome" where
  "loop e s =
     (case iteration e s of
        Continue s' \<Rightarrow> loop e s'
      | Return s' \<Rightarrow> Return s'
      | Panic s' \<Rightarrow> Panic s')"
  by pat_completeness auto
termination
  by (relation "measure (\<lambda>(e, s). length (conn_in s))") (auto dest: iteration_Continue_shorter)

declare loop.simps [simp del]

text \<open>At most \<open>n\<close> passes, for looking at the state in the middle of a run.\<close>

fun passes :: "nat \<Rightarrow> env \<Rightarrow> handler \<Rightarrow> handler outcome" where
  "passes 0 e s = Continue s"
| "passes (Suc n) e s =
     (case iteration e s of
        Continue s' \<Rightarrow> passes n e s'
      | Return s' \<Rightarrow> Return s'
      | Panic s' \<Rightarrow> Panic s')"

text \<open>
  The two deferred functions, in the order they run: the one that closes the file the
  variable \<^verbatim>\<open>file\<close> refers to, then the one that closes the connection and drops the
  endpoint from the registry.
\<close>

definition deferred_file :: "handler \<Rightarrow> handler" where
  "deferred_file s =
     (case wavfile s of
        Some h \<Rightarrow> s\<lparr>os := fst (File_Close (os s) h)\<rparr>
      | None \<Rightarrow> s)"

definition deferred_conn :: "env \<Rightarrow> handler \<Rightarrow> handler" where
  "deferred_conn e s = s\<lparr>conn_closed := True, clientList := clientList s - {clientID_String e}\<rparr>"

text \<open>
  \<open>handleConnection\<close>: the endpoint id is sent, the local variables are initialised, the
  loop runs, and the deferred functions run when it is left. A panic is not recovered
  and ends the process after they have run.
\<close>

definition handleConnection :: "env \<Rightarrow> handler \<Rightarrow> handler outcome" where
  "handleConnection e s =
     (if Write_fails e then Return (deferred_conn e s)
      else
        let s0 = s\<lparr>conn_out := conn_out s @ clientID_bytes e,
                   transmissionBuffer := [], isReceivingTransmission := False,
                   wavfile := None, transmissionStartTime := 0\<rparr>
        in (case loop e s0 of
              Continue s' \<Rightarrow> Continue s'
            | Return s' \<Rightarrow> Return (deferred_conn e (deferred_file s'))
            | Panic s' \<Rightarrow> Panic (deferred_conn e (deferred_file s'))))"

text \<open>The state an outcome carries, and whether the loop goes on after it.\<close>

definition goes_on :: "'a outcome \<Rightarrow> bool" where
  "goes_on r = (case r of Continue s \<Rightarrow> True | Return s \<Rightarrow> False | Panic s \<Rightarrow> False)"

definition state_of :: "'a outcome \<Rightarrow> 'a" where
  "state_of r = (case r of Continue s \<Rightarrow> s | Return s \<Rightarrow> s | Panic s \<Rightarrow> s)"

subsection \<open>Notions used to state the facts\<close>

text \<open>The path \<open>createWavFile\<close> gives a file, from the two clock readings it takes.\<close>

definition wav_path :: "env \<Rightarrow> int \<Rightarrow> int \<Rightarrow> string" where
  "wav_path e today t =
     ''recordings/'' @ Format_day e today @ ''/'' @ clientID_String e @ ''/'' @ ''audio_''
       @ Format_hms e t @ ''.wav''"

text \<open>
  The handler is recording into the open file \<open>h\<close> named \<open>name\<close>, and \<open>payload\<close> is what
  it has received since the start marker: the file holds the placeholder header
  followed by the payload, the next write goes to its end, and the buffer holds the
  payload.
\<close>

definition recording :: "handler \<Rightarrow> nat \<Rightarrow> string \<Rightarrow> byte list \<Rightarrow> bool" where
  "recording s h name payload =
     (isReceivingTransmission s \<and> wavfile s = Some h \<and> h < length (fds (os s))
      \<and> \<not> closed (fds (os s) ! h) \<and> fname (fds (os s) ! h) = name
      \<and> offset (fds (os s) ! h) = 44 + length payload
      \<and> files (os s) name = Some (descriptor 0 @ payload)
      \<and> transmissionBuffer s = payload)"

text \<open>
  A payload a frame can carry: it is not empty, and its length is below \<open>2^32 - 1\<close>, so
  that the prefix is neither of the two markers.
\<close>

definition payload_ok :: "byte list \<Rightarrow> bool" where
  "payload_ok p = (0 < length p \<and> length p < 2 ^ 32 - 1)"

section \<open>package scribe\<close>

subsection \<open>Types\<close>

text \<open>
  A \<^verbatim>\<open>time.Time\<close> is an integer count of nanoseconds. \<open>Confidence\<close> is a
  \<^verbatim>\<open>float32\<close> in the source; the only value ever stored is 1.0, kept as the integer 1.
  The fields \<open>Timestamp\<close> of a job and \<open>ClientID\<close>, \<open>Timestamp\<close> of an envelope carry a
  prefix here, since field names are global.
\<close>

record TranscriptionMessage =
  Timestamp :: int
  Text :: string
  AudioFile :: string
  Confidence :: int

record TranscriptionJob =
  FilePath :: string
  ClientID :: string
  JobTimestamp :: int

record WebSocketMessage =
  Type :: string
  MsgClientID :: string
  MsgTimestamp :: int
  Payload :: TranscriptionMessage

text \<open>
  A buffered channel: the elements waiting in it and its capacity. \<open>try_send\<close> is
  \<^verbatim>\<open>select { case ch <- x: ... default: ... }\<close>: the element is queued when the
  buffer has room, and the \<^verbatim>\<open>default\<close> branch is taken otherwise. Receivers run in
  other goroutines; what they have taken out before the send is the state of \<open>buf\<close> the
  send finds.
\<close>

record 'a chan =
  buf :: "'a list"
  cap :: nat

definition make_chan :: "nat \<Rightarrow> 'a chan" where
  "make_chan n = \<lparr>buf = [], cap = n\<rparr>"

definition try_send :: "'a chan \<Rightarrow> 'a \<Rightarrow> 'a chan \<times> bool" where
  "try_send ch x =
     (if length (buf ch) < cap ch then (ch\<lparr>buf := buf ch @ [x]\<rparr>, True) else (ch, False))"

record wsConnection =
  clientID :: string
  send :: "string chan"

text \<open>\<^verbatim>\<open>fsnotify.Event\<close>; \<open>Op\<close> is a bit mask, and \<open>Create\<close> is its lowest bit.\<close>

record Event =
  Name :: string
  Op :: "32 word"

definition Create :: "32 word" where
  "Create = 1"

text \<open>
  The service: the configured root, the paths the watcher observes, the transcript
  logs, the subscribers of each endpoint, and the job queue. A \<^verbatim>\<open>*wsConnection\<close>
  is an index into \<open>heap\<close>, the table of the connection objects allocated so far.
\<close>

record Scribe =
  RecordingsDir :: string
  watched :: "string set"
  clients :: "string \<rightharpoonup> TranscriptionMessage list"
  subscribers :: "string \<rightharpoonup> nat list"
  heap :: "wsConnection list"
  queue :: "TranscriptionJob chan"

text \<open>
  What the code asks of libraries and of the operating system, as parameters: the
  current day as \<^verbatim>\<open>time.Now().Format("20060102")\<close> prints it, the clock reading
  stamped on a job, \<^verbatim>\<open>filepath.Rel\<close> (\<open>None\<close>: an error), whether
  \<^verbatim>\<open>uuid.Parse\<close> accepts a string, whether \<^verbatim>\<open>os.Stat\<close> finds a directory,
  whether \<^verbatim>\<open>watcher.Add\<close> succeeds, \<^verbatim>\<open>json.Marshal\<close> (\<open>None\<close>: an error), and
  the outcome of \<^verbatim>\<open>upgrader.Upgrade\<close>: the connection is upgraded; or the upgrader
  refuses the request, replies with an HTTP error status itself (400 for a request that
  is no WebSocket handshake) and returns an error; or the connection fails after the
  upgrader has taken it over, and an error is returned with no reply.
\<close>

datatype upgrade = Upgraded | Refused nat | Broken

record lib =
  getCurrentDateDir :: string
  job_time :: int
  filepath_Rel :: "string \<Rightarrow> string \<Rightarrow> string option"
  uuid_Parse :: "string \<Rightarrow> bool"
  IsDir :: "string \<Rightarrow> bool"
  watcher_Add :: "string \<Rightarrow> bool"
  json_Marshal :: "WebSocketMessage \<Rightarrow> string option"
  Upgrade :: upgrade

text \<open>\<open>New\<close>, without the certificate and the watcher it also sets up.\<close>

definition New :: "string \<Rightarrow> Scribe" where
  "New dir =
     \<lparr>RecordingsDir = dir, watched = {}, clients = Map.empty, subscribers = Map.empty,
      heap = [], queue = make_chan 100\<rparr>"

subsection \<open>The watcher\<close>

definition handleNewClient :: "lib \<Rightarrow> Scribe \<Rightarrow> string \<Rightarrow> string \<Rightarrow> Scribe \<times> error option" where
  "handleNewClient l s cid fullPath =
     (if \<not> watcher_Add l fullPath then (s, Some ErrWatch)
      else (s\<lparr>watched := insert fullPath (watched s), clients := (clients s)(cid \<mapsto> [])\<rparr>, None))"

definition handleNewAudioFile :: "lib \<Rightarrow> Scribe \<Rightarrow> string \<Rightarrow> string \<Rightarrow> Scribe \<times> error option" where
  "handleNewAudioFile l s cid filePath =
     (let job = \<lparr>FilePath = filePath, ClientID = cid, JobTimestamp = job_time l\<rparr>
      in (case try_send (queue s) job of
            (q, True) \<Rightarrow> (s\<lparr>queue := q\<rparr>, None)
          | (q, False) \<Rightarrow> (s, Some ErrQueueFull)))"

definition handleFSEvent :: "lib \<Rightarrow> Scribe \<Rightarrow> Event \<Rightarrow> Scribe \<times> error option" where
  "handleFSEvent l s event =
     (if strings_HasSuffix (Name event) ''.tmp'' \<or> Op event \<noteq> Create then (s, None)
      else
        (case filepath_Rel l (RecordingsDir s) (Name event) of
           None \<Rightarrow> (s, Some ErrRel)
         | Some relPath \<Rightarrow>
             let parts = strings_Split relPath (CHR ''/'') in
             if length parts < 2 then (s, None)
             else if parts ! 0 \<noteq> getCurrentDateDir l then (s, None)
             else
               let s1 = (if IsDir l (Name event) \<and> watcher_Add l (Name event)
                         then s\<lparr>watched := insert (Name event) (watched s)\<rparr> else s)
               in
               if length parts = 2 then
                 (if uuid_Parse l (parts ! 1) then handleNewClient l s1 (parts ! 1) (Name event)
                  else (s1, None))
               else if length parts = 3 \<and> uuid_Parse l (parts ! 1)
                       \<and> strings_HasSuffix (parts ! 2) ''.wav'' then
                 (if strings_Contains (parts ! 2) ''_whisper''
                  then handleNewAudioFile l s1 (parts ! 1) (Name event)
                  else (s1, None))
               else (s1, None)))"

subsection \<open>The worker\<close>

text \<open>
  The loop of \<open>extractText\<close> over the lines, one step per line; \<open>builder\<close> is the
  \<^verbatim>\<open>strings.Builder\<close>.
\<close>

definition extractText_step :: "string \<Rightarrow> string \<Rightarrow> string" where
  "extractText_step builder line =
     (if strings_TrimSpace line = [] then builder
      else if strings_Contains line ''[BLANK_AUDIO]'' then builder
      else
        let text = strings_TrimSpace line in
        if text \<noteq> [] then (if length builder > 0 then builder @ '' '' else builder) @ text
        else builder)"

definition extractText :: "string \<Rightarrow> string" where
  "extractText output =
     strings_TrimSpace (foldl extractText_step [] (strings_Split output (CHR 0x0A)))"

text \<open>
  The text the specification describes: split on line breaks, drop the lines that are
  empty after trimming and the lines containing \<open>[BLANK_AUDIO]\<close>, trim each line that is
  left, and join with single spaces.
\<close>

fun join_spaces :: "string list \<Rightarrow> string" where
  "join_spaces [] = []"
| "join_spaces [x] = x"
| "join_spaces (x # y # ys) = x @ '' '' @ join_spaces (y # ys)"

definition extractText_spec :: "string \<Rightarrow> string" where
  "extractText_spec output =
     join_spaces (map strings_TrimSpace
       (filter (\<lambda>line. strings_TrimSpace line \<noteq> [] \<and> \<not> strings_Contains line ''[BLANK_AUDIO]'')
          (strings_Split output (CHR 0x0A))))"

text \<open>The lines that survive the two tests of the loop.\<close>

definition keep :: "string \<Rightarrow> bool" where
  "keep line = (strings_TrimSpace line \<noteq> [] \<and> \<not> strings_Contains line ''[BLANK_AUDIO]'')"

text \<open>
  What \<^verbatim>\<open>cmd.Output()\<close> returns: the standard output, an \<^verbatim>\<open>*exec.ExitError\<close>
  with the standard error, or another error.
\<close>

datatype cmd_result = Output string | ExitError string | OtherError

text \<open>The loop over the subscribers of the endpoint, each offered the message once.\<close>

fun notify :: "wsConnection list \<Rightarrow> nat list \<Rightarrow> string \<Rightarrow> wsConnection list" where
  "notify h [] data = h"
| "notify h (c # connections) data =
     notify (h[c := (h ! c)\<lparr>send := fst (try_send (send (h ! c)) data)\<rparr>]) connections data"

definition mkMessage :: "TranscriptionJob \<Rightarrow> string \<Rightarrow> TranscriptionMessage" where
  "mkMessage job text =
     \<lparr>Timestamp = JobTimestamp job, Text = text, AudioFile = filepath_Base (FilePath job),
      Confidence = 1\<rparr>"

definition envelope :: "TranscriptionJob \<Rightarrow> TranscriptionMessage \<Rightarrow> WebSocketMessage" where
  "envelope job msg =
     \<lparr>Type = ''transcription'', MsgClientID = ClientID job, MsgTimestamp = JobTimestamp job,
      Payload = msg\<rparr>"

definition processJob ::
  "lib \<Rightarrow> Scribe \<Rightarrow> TranscriptionJob \<Rightarrow> cmd_result \<Rightarrow> Scribe \<times> error option" where
  "processJob l s job res =
     (case res of
        ExitError stderr \<Rightarrow>
          if strings_Contains stderr ''input file not found'' then (s, None)
          else (s, Some ErrExec)
      | OtherError \<Rightarrow> (s, Some ErrExec)
      | Output outputStr \<Rightarrow>
          let text = extractText outputStr in
          if text = [] then (s, None)
          else
            let msg = mkMessage job text;
                transcriptions = (case clients s (ClientID job) of None \<Rightarrow> [] | Some ms \<Rightarrow> ms);
                s1 = s\<lparr>clients := (clients s)(ClientID job \<mapsto> transcriptions @ [msg])\<rparr>
            in (case json_Marshal l (envelope job msg) of
                  None \<Rightarrow> (s1, Some ErrMarshal)
                | Some data \<Rightarrow>
                    (case subscribers s1 (ClientID job) of
                       Some connections \<Rightarrow> (s1\<lparr>heap := notify (heap s1) connections data\<rparr>, None)
                     | None \<Rightarrow> (s1, None))))"

subsection \<open>Subscriptions\<close>

definition registerSubscriber :: "Scribe \<Rightarrow> string \<Rightarrow> nat \<Rightarrow> Scribe" where
  "registerSubscriber s cid wsConn =
     (let connections = (case subscribers s cid of None \<Rightarrow> [] | Some cs \<Rightarrow> cs)
      in s\<lparr>subscribers := (subscribers s)(cid \<mapsto> connections @ [wsConn])\<rparr>)"

text \<open>
  \<open>handleWebSocket\<close>; the second component of the result is the HTTP status of the error
  reply, if one is sent: by the handler for an endpoint id that does not parse, by the
  upgrader when it refuses the request. The two pumps it starts run in goroutines of
  their own.
\<close>

definition handleWebSocket :: "lib \<Rightarrow> Scribe \<Rightarrow> string \<Rightarrow> Scribe \<times> nat option" where
  "handleWebSocket l s cid =
     (if \<not> uuid_Parse l cid then (s, Some 400)
      else
        (case Upgrade l of
           Refused status \<Rightarrow> (s, Some status)
         | Broken \<Rightarrow> (s, None)
         | Upgraded \<Rightarrow>
             let wsConn = length (heap s);
                 s1 = s\<lparr>heap := heap s @ [\<lparr>clientID = cid, send = make_chan 256\<rparr>]\<rparr>
             in (registerSubscriber s1 cid wsConn, None)))"

section \<open>Concrete inputs for the scribe\<close>

text \<open>
  Library behaviour for the examples: \<open>filepath.Rel\<close> of a path below the root is the
  rest of the path, every string of 36 bytes parses as an endpoint id, nothing is a
  directory, the envelope is serialized to its text, and WebSocket upgrades succeed.
\<close>

definition ex_lib :: lib where
  "ex_lib =
     \<lparr>getCurrentDateDir = ''20240101'', job_time = 7,
      filepath_Rel = (\<lambda>base targ. if strings_HasPrefix targ (base @ ''/'')
                                   then Some (drop (length base + 1) targ) else None),
      uuid_Parse = (\<lambda>s. length s = 36), IsDir = (\<lambda>p. False), watcher_Add = (\<lambda>p. True),
      json_Marshal = (\<lambda>m. Some (Text (Payload m))), Upgrade = Upgraded\<rparr>"

definition ex_id :: string where
  "ex_id = ''00000000-0000-0000-0000-000000000001''"

definition ex_job :: TranscriptionJob where
  "ex_job =
     \<lparr>FilePath = ''recordings/20240101/00000000-0000-0000-0000-000000000001/audio_120000_whisper.wav'',
      ClientID = ex_id, JobTimestamp = 7\<rparr>"

text \<open>A service whose job queue already holds \<open>n\<close> jobs.\<close>

definition ex_scribe :: "nat \<Rightarrow> Scribe" where
  "ex_scribe n = (New ''recordings'')\<lparr>queue := \<lparr>buf = replicate n ex_job, cap = 100\<rparr>\<rparr>"

definition ex_event :: "string \<Rightarrow> Event" where
  "ex_event leaf =
     \<lparr>Name = ''recordings/20240101/00000000-0000-0000-0000-000000000001/'' @ leaf, Op = Create\<rparr>"

text \<open>
  A service with two subscribers of one endpoint: the queue of the first is full, the
  queue of the second is empty.
\<close>

definition ex_hub :: Scribe where
  "ex_hub =
     (New ''recordings'')
       \<lparr>subscribers := [ex_id \<mapsto> [0, 1]],
        heap := [\<lparr>clientID = ex_id, send = \<lparr>buf = replicate 256 ''old'', cap = 256\<rparr>\<rparr>,
                 \<lparr>clientID = ex_id, send = make_chan 256\<rparr>]\<rparr>"

text \<open>Recognizer output with nothing to transcribe, and output with two lines of text.\<close>

definition ex_blank :: string where
  "ex_blank = ''[BLANK_AUDIO]'' @ [CHR 0x0A] @ ''  '' @ [CHR 0x0A]"

definition ex_speech :: string where
  "ex_speech = '' hello '' @ [CHR 0x0A] @ '' [BLANK_AUDIO]'' @ [CHR 0x0A] @ ''world''"

text \<open>
  Output with white space outside ASCII: a line of text between U+00A0 and U+3000, a
  line that holds U+2002 only, and a line of text that ends with a carriage return.
\<close>

definition ex_unicode :: string where
  "ex_unicode =
     [CHR 0xC2, CHR 0xA0] @ ''good'' @ [CHR 0xE3, CHR 0x80, CHR 0x80] @ [CHR 0x0A]
       @ [CHR 0xE2, CHR 0x80, CHR 0x82] @ [CHR 0x0A]
       @ ''day'' @ [CHR 0x0D]"

section \<open>Concrete inputs for the connection handler\<close>

text \<open>
  What a peer writes (\<open>sendStartTransmission\<close>, \<open>sendEndTransmission\<close> and
  \<open>sendAudioChunk\<close> of the client): the two markers, and a payload frame, which is the
  big-endian length of the payload followed by the payload.
\<close>

definition start_marker :: "byte list" where
  "start_marker = [0xFF, 0xFF, 0xFF, 0xFF]"

definition end_marker :: "byte list" where
  "end_marker = [0x00, 0x00, 0x00, 0x00]"

definition frame :: "byte list \<Rightarrow> byte list" where
  "frame p = BigEndian_PutUint32 (of_nat (length p)) @ p"

text \<open>
  An environment in which nothing fails and the context is never cancelled: the clock
  is a parameter, every day prints as \<open>20240101\<close>, the time of day prints by the second
  it falls in, and the transcoder hands back its input.
\<close>

definition ex_hms :: "int \<Rightarrow> string" where
  "ex_hms t = (if t < Second then ''120000'' else if t < 2 * Second then ''120001'' else ''120002'')"

text \<open>
  A clock whose first three readings (those a start marker takes) are 0 and whose
  later readings are all \<open>t\<close>.
\<close>

definition clock_at :: "int \<Rightarrow> nat \<Rightarrow> int" where
  "clock_at t k = (if k < 3 then 0 else t)"

definition ex_env :: "(nat \<Rightarrow> int) \<Rightarrow> env" where
  "ex_env clk =
     \<lparr>clock = clk, Format_day = (\<lambda>t. ''20240101''), Format_hms = ex_hms,
      MkdirAll_fails = (\<lambda>k. False), Create_fails = (\<lambda>k. False),
      ffmpeg = (\<lambda>p c. c), ctx_Done = (\<lambda>k. False), Write_fails = False,
      clientID_bytes = replicate 15 0 @ [1], clientID_String = ex_id\<rparr>"

text \<open>
  The same environment during a shutdown of the server: the context is found cancelled
  by every check but the first.
\<close>

definition ex_shutdown :: env where
  "ex_shutdown = (ex_env (clock_at 0))\<lparr>ctx_Done := (\<lambda>k. 1 \<le> k)\<rparr>"

text \<open>A registered endpoint whose connection will deliver \<open>bytes\<close>, on an empty disk.\<close>

definition ex_conn :: "byte list \<Rightarrow> handler" where
  "ex_conn bytes =
     \<lparr>conn_in = bytes, conn_out = [], conn_closed = False, clientList = {ex_id},
      transmissionBuffer = [], isReceivingTransmission = False, wavfile = None,
      transmissionStartTime = 0, os = \<lparr>files = Map.empty, fds = [], cmds = []\<rparr>,
      now_calls = 0, polls = 0\<rparr>"

definition ex_path :: "string \<Rightarrow> string" where
  "ex_path hms = ''recordings/20240101/'' @ ex_id @ ''/audio_'' @ hms @ ''.wav''"

text \<open>
  The state in which the handler is about to read the end marker of an utterance of
  four payload bytes, with a clock that will read \<open>t\<close>.
\<close>

definition ex_recorded :: "int \<Rightarrow> handler" where
  "ex_recorded t =
     state_of (passes 2 (ex_env (clock_at t))
       (ex_conn (start_marker @ frame [0, 1, 0, 2] @ end_marker)))"

text \<open>A payload of \<open>2^31\<close> bytes; two of them make \<open>2^32\<close> bytes.\<close>

definition ex_big :: "byte list" where
  "ex_big = replicate 2147483648 0"

section \<open>Facts about the container header\<close>

lemma length_le32 [simp]: "length (le32 w) = 4"
  by (simp add: le32_def)

lemma length_le16 [simp]: "length (le16 w) = 2"
  by (simp add: le16_def)

lemma length_bytes_of [simp]: "length (bytes_of s) = length s"
  by (simp add: bytes_of_def)

lemma length_descriptor [simp]: "length (descriptor d) = 44"
  by (simp add: descriptor_def)

lemma LittleEndian_Uint32_le32: "LittleEndian_Uint32 (le32 w) = w"
proof (rule bit_word_eqI)
  fix n
  assume "n < LENGTH(32)"
  then have n: "n < 32"
    by simp
  consider "n < 8" | "8 \<le> n" "n < 16" | "16 \<le> n" "n < 24" | "24 \<le> n"
    by linarith
  then show "bit (LittleEndian_Uint32 (le32 w)) n = bit w n"
    using n by cases (auto simp add: LittleEndian_Uint32_def le32_def bit_simps)
qed

lemma binary_Write_mkWavHeader: "binary_Write_WavHeader (mkWavHeader d) = descriptor d"
  by (simp add: binary_Write_WavHeader_def mkWavHeader_def channels_def bitsPerSample_def
      recordingSampleRate_def descriptor_def)

lemma File_Write_open:
  "h < length (fds w) \<Longrightarrow> \<not> closed (fds w ! h) \<Longrightarrow> files w (fname (fds w ! h)) = Some c \<Longrightarrow>
   File_Write w h bs =
     (w\<lparr>files := (files w)(fname (fds w ! h) \<mapsto> pwrite c (offset (fds w ! h)) bs),
        fds := (fds w)[h := (fds w ! h)\<lparr>offset := offset (fds w ! h) + length bs\<rparr>]\<rparr>, None)"
  by (simp add: File_Write_def is_open_def Let_def)

lemma UpdateWavHeader_open:
  assumes "h < length (fds w)" "\<not> closed (fds w ! h)" "files w (fname (fds w ! h)) = Some c"
  shows "UpdateWavHeader w h d =
     (w\<lparr>files := (files w)(fname (fds w ! h) \<mapsto> pwrite (pwrite c 4 (le32 (d + 36))) 40 (le32 d)),
        fds := (fds w)[h := (fds w ! h)\<lparr>offset := 44\<rparr>]\<rparr>, None)"
  using assms
  by (simp add: UpdateWavHeader_def File_Seek_def File_Write_def is_open_def Let_def)

lemma UpdateWavHeader_closed:
  "\<not> is_open w h \<Longrightarrow> UpdateWavHeader w h d = (w, Some ErrClosed)"
  by (simp add: UpdateWavHeader_def File_Seek_def)

lemma patch_descriptor:
  "pwrite (pwrite (descriptor d0 @ payload) 4 (le32 (d + 36))) 40 (le32 d) = descriptor d @ payload"
  by (simp add: pwrite_def descriptor_def)

text \<open>
  The four bytes of a size field, read as a number least significant byte first, and
  the bytes of the descriptor one by one.
\<close>

lemma base256:
  fixes n :: nat
  assumes "n < 4294967296"
  shows "n mod 256 + 256 * (n div 256 mod 256) + 65536 * (n div 65536 mod 256)
     + 16777216 * (n div 16777216 mod 256) = n"
proof -
  have a: "n = n mod 256 + 256 * (n div 256)"
    by simp
  have b: "n div 256 = n div 256 mod 256 + 256 * (n div 65536)"
    using mod_mult_div_eq[of "n div 256" 256] by (simp add: div_mult2_eq[symmetric])
  have c: "n div 65536 = n div 65536 mod 256 + 256 * (n div 16777216)"
    using mod_mult_div_eq[of "n div 65536" 256] by (simp add: div_mult2_eq[symmetric])
  have d: "n div 16777216 mod 256 = n div 16777216"
    using assms by simp
  show ?thesis
    using a b c d by linarith
qed

lemma unat_le32_bytes:
  "unat (le32 x ! 0) + 256 * unat (le32 x ! 1) + 65536 * unat (le32 x ! 2)
     + 16777216 * unat (le32 x ! 3) = unat x"
proof -
  have b: "unat x < 4294967296"
    using unsigned_less[of x, where 'a = nat] by simp
  have "unat (ucast (drop_bit k x) :: 8 word) = (unat x div 2 ^ k) mod 256" for k
    unfolding unsigned_ucast_eq unat_drop_bit_eq by (simp add: drop_bit_eq_div take_bit_eq_mod)
  from this[of 0] this[of 8] this[of 16] this[of 24]
  have "unat (le32 x ! 0) = unat x mod 256" "unat (le32 x ! 1) = unat x div 256 mod 256"
     "unat (le32 x ! 2) = unat x div 65536 mod 256" "unat (le32 x ! 3) = unat x div 16777216 mod 256"
    by (simp_all add: le32_def)
  then show ?thesis
    using base256[OF b] by simp
qed

lemma w36: "unat (d + 36 :: 32 word) = (unat d + 36) mod 2 ^ 32"
  by (simp add: unat_word_ariths)

lemma descriptor_bytes:
  "descriptor d =
     [0x52, 0x49, 0x46, 0x46] @ le32 (d + 36)
       @ [0x57, 0x41, 0x56, 0x45, 0x66, 0x6D, 0x74, 0x20, 16, 0, 0, 0, 1, 0, 1, 0,
          0x44, 0xAC, 0, 0, 0x88, 0x58, 1, 0, 2, 0, 16, 0, 0x64, 0x61, 0x74, 0x61]
       @ le32 d"
  by (simp add: descriptor_def le32_def le16_def bytes_of_def)


lemma descriptor_fields:
  "unat (descriptor d ! 4) + 256 * unat (descriptor d ! 5) + 65536 * unat (descriptor d ! 6)
     + 16777216 * unat (descriptor d ! 7) = (unat d + 36) mod 2 ^ 32"
  "unat (descriptor d ! 40) + 256 * unat (descriptor d ! 41) + 65536 * unat (descriptor d ! 42)
     + 16777216 * unat (descriptor d ! 43) = unat d"
proof -
  have "descriptor d ! 4 = le32 (d + 36) ! 0" "descriptor d ! 5 = le32 (d + 36) ! 1"
    "descriptor d ! 6 = le32 (d + 36) ! 2" "descriptor d ! 7 = le32 (d + 36) ! 3"
    by (simp_all add: descriptor_bytes nth_append)
  then show "unat (descriptor d ! 4) + 256 * unat (descriptor d ! 5)
     + 65536 * unat (descriptor d ! 6) + 16777216 * unat (descriptor d ! 7)
       = (unat d + 36) mod 2 ^ 32"
    using unat_le32_bytes[of "d + 36"] by (simp add: w36)
  have "descriptor d ! 40 = le32 d ! 0" "descriptor d ! 41 = le32 d ! 1"
    "descriptor d ! 42 = le32 d ! 2" "descriptor d ! 43 = le32 d ! 3"
    by (simp_all add: descriptor_bytes nth_append)
  then show "unat (descriptor d ! 40) + 256 * unat (descriptor d ! 41)
     + 65536 * unat (descriptor d ! 42) + 16777216 * unat (descriptor d ! 43) = unat d"
    using unat_le32_bytes[of d] by simp
qed

lemma descriptor_tags:
  "take 4 (descriptor d) = [0x52, 0x49, 0x46, 0x46]"
  "take 32 (drop 8 (descriptor d)) =
     [0x57, 0x41, 0x56, 0x45, 0x66, 0x6D, 0x74, 0x20, 16, 0, 0, 0, 1, 0, 1, 0,
      0x44, 0xAC, 0, 0, 0x88, 0x58, 1, 0, 2, 0, 16, 0, 0x64, 0x61, 0x74, 0x61]"
  by (simp_all add: descriptor_bytes)

text \<open>
  Claim C4, as amended. A file is created, the header is written for some data size
  \<open>d0\<close> (the handler writes it for 0), the payload is appended and the header is patched
  with \<open>d\<close>. No step fails, and the file then holds 44 descriptor bytes followed by the
  payload. Read as a number, least significant byte first, the field at offset 4 is
  \<open>d + 36\<close> reduced modulo \<open>2^32\<close> (the source computes \<^verbatim>\<open>uint32(dataSize+36)\<close>), and
  the field at offset 40 is \<open>d\<close>. The bytes 0..3 are the tag \<open>RIFF\<close>; the bytes 8..39 are
  the tags \<open>WAVE\<close> and \<open>fmt\<close> followed by a space, the size 16 of the format block, the PCM
  format tag 1, 1 channel, the sample rate 44100 (\<open>0xAC44\<close>), the byte rate 88200
  (\<open>0x15888\<close>), the block alignment 2, 16 bits per sample, and the tag \<open>data\<close>; all of
  them are the bytes of the initial write. The bytes from offset 44 on are the payload,
  before and after the patch.
\<close>

theorem write_then_update_header:
  "let (w1, file) = os_Create w p;
       (w2, e2) = WriteWavHeader w1 file d0;
       (w3, e3) = File_Write w2 file payload;
       (w4, e4) = UpdateWavHeader w3 file d;
       before = the (files w3 p);
       after = the (files w4 p);
       field = (\<lambda>bs i. unat (bs ! i) + 256 * unat (bs ! (i + 1)) + 65536 * unat (bs ! (i + 2))
                         + 16777216 * unat (bs ! (i + 3)))
   in e2 = None \<and> e3 = None \<and> e4 = None
      \<and> files w2 p = Some (descriptor d0)
      \<and> files w3 p = Some (descriptor d0 @ payload)
      \<and> files w4 p = Some (descriptor d @ payload)
      \<and> length before = 44 + length payload \<and> length after = 44 + length payload
      \<and> field after 4 = (unat d + 36) mod 2 ^ 32
      \<and> field after 40 = unat d
      \<and> take 4 after = [0x52, 0x49, 0x46, 0x46]
      \<and> take 32 (drop 8 after) =
          [0x57, 0x41, 0x56, 0x45, 0x66, 0x6D, 0x74, 0x20, 16, 0, 0, 0, 1, 0, 1, 0,
           0x44, 0xAC, 0, 0, 0x88, 0x58, 1, 0, 2, 0, 16, 0, 0x64, 0x61, 0x74, 0x61]
      \<and> take 4 before = take 4 after
      \<and> take 32 (drop 8 before) = take 32 (drop 8 after)
      \<and> drop 44 after = payload \<and> drop 44 before = payload"
proof -
  have c: "os_Create w p =
      (w\<lparr>files := (files w)(p \<mapsto> []),
         fds := fds w @ [\<lparr>fname = p, offset = 0, closed = False\<rparr>]\<rparr>, length (fds w))"
    by (simp add: os_Create_def)
  have nth: "(descriptor x @ payload) ! 4 = descriptor x ! 4"
    "(descriptor x @ payload) ! 5 = descriptor x ! 5"
    "(descriptor x @ payload) ! 6 = descriptor x ! 6"
    "(descriptor x @ payload) ! 7 = descriptor x ! 7"
    "(descriptor x @ payload) ! 40 = descriptor x ! 40"
    "(descriptor x @ payload) ! 41 = descriptor x ! 41"
    "(descriptor x @ payload) ! 42 = descriptor x ! 42"
    "(descriptor x @ payload) ! 43 = descriptor x ! 43" for x
    by (simp_all add: nth_append)
  show ?thesis
    unfolding c
    by (simp add: WriteWavHeader_def binary_Write_mkWavHeader File_Write_open
        UpdateWavHeader_open pwrite_def[of "[]"] pwrite_def[of "descriptor d0"]
        patch_descriptor nth descriptor_fields descriptor_tags Let_def)
qed

text \<open>
  A run on a payload of four bytes, patched with the data size 4: the file holds these
  48 bytes.
\<close>

theorem write_then_update_header_witness:
  "files (fst (UpdateWavHeader
      (fst (File_Write
         (fst (WriteWavHeader (fst (os_Create \<lparr>files = Map.empty, fds = [], cmds = []\<rparr> ''a.wav'')) 0 0))
         0 [0, 1, 0, 2]))
      0 4)) ''a.wav''
     = Some [0x52, 0x49, 0x46, 0x46, 40, 0, 0, 0,
             0x57, 0x41, 0x56, 0x45, 0x66, 0x6D, 0x74, 0x20, 16, 0, 0, 0, 1, 0, 1, 0,
             0x44, 0xAC, 0, 0, 0x88, 0x58, 1, 0, 2, 0, 16, 0, 0x64, 0x61, 0x74, 0x61,
             4, 0, 0, 0,
             0, 1, 0, 2]"
  using write_then_update_header [of "\<lparr>files = Map.empty, fds = [], cmds = []\<rparr>" "''a.wav''"
      0 "[0, 1, 0, 2]" 4]
  by (simp add: os_Create_def descriptor_bytes le32_def Let_def split: prod.splits)

text \<open>
  The claim as stated fails for the 36 largest data sizes: the total size does not fit
  its field. Patched with \<open>d = 0xFFFFFFFF\<close>, the field at offset 4 holds 35, which is not
  \<open>d + 36\<close>.
\<close>

theorem total_size_counterexample:
  "files (fst (UpdateWavHeader
      (fst (File_Write
         (fst (WriteWavHeader (fst (os_Create \<lparr>files = Map.empty, fds = [], cmds = []\<rparr> ''a.wav'')) 0 0))
         0 []))
      0 0xFFFFFFFF)) ''a.wav''
     = Some [0x52, 0x49, 0x46, 0x46, 35, 0, 0, 0,
             0x57, 0x41, 0x56, 0x45, 0x66, 0x6D, 0x74, 0x20, 16, 0, 0, 0, 1, 0, 1, 0,
             0x44, 0xAC, 0, 0, 0x88, 0x58, 1, 0, 2, 0, 16, 0, 0x64, 0x61, 0x74, 0x61,
             0xFF, 0xFF, 0xFF, 0xFF]
   \<and> LittleEndian_Uint32 [35, 0, 0, 0] = 35
   \<and> LittleEndian_Uint32 [0xFF, 0xFF, 0xFF, 0xFF] = 0xFFFFFFFF
   \<and> (35 :: nat) \<noteq> unat (0xFFFFFFFF :: 32 word) + 36"
  by (simp add: os_Create_def WriteWavHeader_def UpdateWavHeader_def File_Write_def File_Seek_def
      is_open_def binary_Write_WavHeader_def mkWavHeader_def channels_def bitsPerSample_def
      recordingSampleRate_def pwrite_def le32_def le16_def bytes_of_def LittleEndian_Uint32_def
      Let_def)


section \<open>Facts about the resample step\<close>

text \<open>
  Claim C10. \<open>ResampleForWhisper\<close> panics on a path of fewer than four bytes. On a path of
  at least four bytes it does not panic and runs the transcoder with the output path
  obtained by cutting the last four bytes and appending \<open>_whisper.wav\<close>; for a path
  \<open>b.wav\<close> that is the sibling \<open>b_whisper.wav\<close>.
\<close>

theorem resample_output_path:
  "(length p < 4 \<longrightarrow> ResampleForWhisper transcoder w p = None)
   \<and> (4 \<le> length p \<longrightarrow>
        whisperPath p = Some (take (length p - 4) p @ ''_whisper.wav'')
        \<and> (\<exists>w' e. ResampleForWhisper transcoder w p = Some (w', e)
              \<and> map Args (cmds w') = map Args (cmds w) @
                   [[''ffmpeg'', ''-i'', p, ''-ar'', ''16000'', ''-ac'', ''1'', ''-y'',
                     take (length p - 4) p @ ''_whisper.wav'']]))
   \<and> whisperPath (b @ ''.wav'') = Some (b @ ''_whisper.wav'')"
  by (auto simp add: ResampleForWhisper_def whisperPath_def os_Remove_def Let_def
      split: option.splits)

theorem resample_output_path_witness:
  "length ''ab'' < 4
   \<and> ResampleForWhisper (\<lambda>p c. None) \<lparr>files = Map.empty, fds = [], cmds = []\<rparr> ''ab'' = None
   \<and> 4 \<le> length ''a.wav''
   \<and> whisperPath ''a.wav'' = Some ''a_whisper.wav''
   \<and> (\<exists>w' e. ResampleForWhisper (\<lambda>p c. None) \<lparr>files = Map.empty, fds = [], cmds = []\<rparr> ''a.wav''
                = Some (w', e)
         \<and> map Args (cmds w') =
               [[''ffmpeg'', ''-i'', ''a.wav'', ''-ar'', ''16000'', ''-ac'', ''1'', ''-y'',
                 ''a_whisper.wav'']])"
  using resample_output_path [of "''ab''" "\<lambda>p c. None" "\<lparr>files = Map.empty, fds = [], cmds = []\<rparr>" "''a''"]
    resample_output_path [of "''a.wav''" "\<lambda>p c. None" "\<lparr>files = Map.empty, fds = [], cmds = []\<rparr>" "''a''"]
  by simp

section \<open>Facts about the worker\<close>

subsection \<open>extractText\<close>

text \<open>
  What \<open>strings_TrimSpace\<close> returns neither starts nor ends with white space, and a
  string that neither starts nor ends with white space is returned as it is.
\<close>

lemma HasPrefix_append: "strings_HasPrefix s p \<longleftrightarrow> (\<exists>r. s = p @ r)"
  unfolding strings_HasPrefix_def
  by (metis append_eq_conv_conj append_take_drop_id le_add1 length_append)

lemma HasSuffix_append: "strings_HasSuffix s p \<longleftrightarrow> (\<exists>r. s = r @ p)"
  unfolding strings_HasSuffix_def
  by (metis append_eq_conv_conj append_take_drop_id le_add2 length_append add_diff_cancel_right')

lemma find_None_space_prefix: "find (strings_HasPrefix s) white_space = None \<longleftrightarrow> \<not> space_prefix s"
  by (auto simp: find_None_iff space_prefix_def)

lemma find_None_space_suffix: "find (strings_HasSuffix s) white_space = None \<longleftrightarrow> \<not> space_suffix s"
  by (auto simp: find_None_iff space_suffix_def)

lemma TrimLeftFunc_no_space: "\<not> space_prefix (TrimLeftFunc s)"
proof (induction s rule: TrimLeftFunc.induct)
  case (1 s)
  show ?case
  proof (cases "find (strings_HasPrefix s) white_space")
    case None
    then have "TrimLeftFunc s = s"
      by (simp add: TrimLeftFunc.simps[of s])
    then show ?thesis
      using None by (simp add: find_None_space_prefix)
  next
    case (Some p)
    then show ?thesis
      using 1 by (simp add: TrimLeftFunc.simps[of s])
  qed
qed

lemma TrimRightFunc_no_space: "\<not> space_suffix (TrimRightFunc s)"
proof (induction s rule: TrimRightFunc.induct)
  case (1 s)
  show ?case
  proof (cases "find (strings_HasSuffix s) white_space")
    case None
    then have "TrimRightFunc s = s"
      by (simp add: TrimRightFunc.simps[of s])
    then show ?thesis
      using None by (simp add: find_None_space_suffix)
  next
    case (Some p)
    then show ?thesis
      using 1 by (simp add: TrimRightFunc.simps[of s])
  qed
qed

lemma TrimRightFunc_take: "\<exists>r. s = TrimRightFunc s @ r"
proof (induction s rule: TrimRightFunc.induct)
  case (1 s)
  show ?case
  proof (cases "find (strings_HasSuffix s) white_space")
    case None
    then show ?thesis
      by (simp add: TrimRightFunc.simps[of s])
  next
    case (Some p)
    then obtain r where "take (length s - length p) s = TrimRightFunc (take (length s - length p) s) @ r"
      using 1 by blast
    then have "s = TrimRightFunc (take (length s - length p) s) @ r @ drop (length s - length p) s"
      by (metis append_assoc append_take_drop_id)
    then show ?thesis
      using Some by (auto simp add: TrimRightFunc.simps[of s])
  qed
qed

lemma TrimSpace_no_space:
  "\<not> space_prefix (strings_TrimSpace s) \<and> \<not> space_suffix (strings_TrimSpace s)"
proof -
  obtain r where r: "TrimLeftFunc s = TrimRightFunc (TrimLeftFunc s) @ r"
    using TrimRightFunc_take by blast
  have "\<not> space_prefix (TrimRightFunc (TrimLeftFunc s))"
  proof
    assume "space_prefix (TrimRightFunc (TrimLeftFunc s))"
    then obtain p q where "p \<in> set white_space" "TrimRightFunc (TrimLeftFunc s) = p @ q"
      by (auto simp: space_prefix_def HasPrefix_append)
    then have "p \<in> set white_space" "TrimLeftFunc s = p @ (q @ r)"
      using r by simp_all
    then have "space_prefix (TrimLeftFunc s)"
      unfolding space_prefix_def HasPrefix_append by blast
    then show False
      by (simp add: TrimLeftFunc_no_space)
  qed
  then show ?thesis
    by (simp add: strings_TrimSpace_def TrimRightFunc_no_space)
qed

lemma TrimSpace_id:
  assumes "\<not> space_prefix s" "\<not> space_suffix s"
  shows "strings_TrimSpace s = s"
proof -
  have "find (strings_HasPrefix s) white_space = None" "find (strings_HasSuffix s) white_space = None"
    using assms by (simp_all add: find_None_space_prefix find_None_space_suffix)
  then have "TrimLeftFunc s = s" "TrimRightFunc s = s"
    by (simp_all add: TrimLeftFunc.simps[of s] TrimRightFunc.simps[of s])
  then show ?thesis
    by (simp add: strings_TrimSpace_def)
qed

lemma TrimSpace_Nil: "strings_TrimSpace [] = []"
  by (rule TrimSpace_id)
    (simp_all add: space_prefix_def space_suffix_def white_space_def strings_HasPrefix_def
      strings_HasSuffix_def)

lemma white_space_inner:
  "p \<in> set white_space \<Longrightarrow> CHR 0x20 \<notin> set (tl p) \<and> CHR 0x20 \<notin> set (butlast p)"
  by (auto simp: white_space_def)

lemma space_prefix_sep:
  assumes "a \<noteq> []" "\<not> space_prefix a"
  shows "\<not> space_prefix (a @ CHR 0x20 # b)"
proof
  assume "space_prefix (a @ CHR 0x20 # b)"
  then obtain p r where p: "p \<in> set white_space" "a @ CHR 0x20 # b = p @ r"
    by (auto simp: space_prefix_def HasPrefix_append)
  from p(2) obtain us where
    us: "a = p @ us \<and> us @ CHR 0x20 # b = r \<or> a @ us = p \<and> CHR 0x20 # b = us @ r"
    unfolding append_eq_append_conv2 by blast
  then consider "\<exists>vs. a = p @ vs" | "a @ us = p" "CHR 0x20 # b = us @ r" "us \<noteq> []"
    by (cases "us = []") auto
  then show False
  proof cases
    case 1
    then show ?thesis
      using p(1) assms(2) by (auto simp: space_prefix_def HasPrefix_append)
  next
    case 2
    then obtain vs where "us = CHR 0x20 # vs"
      by (cases us) auto
    then have "CHR 0x20 \<in> set (tl p)"
      using 2(1) assms(1) by (cases a) auto
    then show ?thesis
      using white_space_inner[OF p(1)] by simp
  qed
qed

lemma space_suffix_sep:
  assumes "b \<noteq> []" "\<not> space_suffix b"
  shows "\<not> space_suffix (a @ CHR 0x20 # b)"
proof
  assume "space_suffix (a @ CHR 0x20 # b)"
  then obtain p r where p: "p \<in> set white_space" "(a @ [CHR 0x20]) @ b = r @ p"
    by (auto simp: space_suffix_def HasSuffix_append)
  from p(2) obtain us where
    us: "a @ [CHR 0x20] = r @ us \<and> us @ b = p \<or> (a @ [CHR 0x20]) @ us = r \<and> b = us @ p"
    unfolding append_eq_append_conv2[of "a @ [CHR 0x20]"] by blast
  then consider "\<exists>vs. b = vs @ p" | "p = us @ b" "a @ [CHR 0x20] = r @ us" "us \<noteq> []"
    by (cases "us = []") auto
  then show False
  proof cases
    case 1
    then show ?thesis
      using p(1) assms(2) by (auto simp: space_suffix_def HasSuffix_append)
  next
    case 2
    then obtain vs where "us = vs @ [CHR 0x20]"
      by (cases us rule: rev_cases) auto
    then have "CHR 0x20 \<in> set (butlast p)"
      using 2(1) assms(1) by (cases b rule: rev_cases) (auto simp: butlast_append)
    then show ?thesis
      using white_space_inner[OF p(1)] by simp
  qed
qed

text \<open>
  Pieces that neither start nor end with white space, joined by single spaces, give a
  string that neither starts nor ends with white space: the space between two pieces
  is no part of a longer encoding.
\<close>

lemma join_spaces_ends:
  "xs \<noteq> [] \<Longrightarrow> \<forall>x\<in>set xs. x \<noteq> [] \<and> \<not> space_prefix x \<and> \<not> space_suffix x \<Longrightarrow>
   join_spaces xs \<noteq> [] \<and> \<not> space_prefix (join_spaces xs) \<and> \<not> space_suffix (join_spaces xs)"
proof (induction xs rule: join_spaces.induct)
  case 1
  then show ?case
    by simp
next
  case (2 x)
  then show ?case
    by simp
next
  case (3 x y ys)
  then have r: "join_spaces (y # ys) \<noteq> []" "\<not> space_suffix (join_spaces (y # ys))"
    and x: "x \<noteq> []" "\<not> space_prefix x"
    by simp_all
  show ?case
    using space_prefix_sep[OF x, of "join_spaces (y # ys)"] space_suffix_sep[OF r, of x]
    by simp
qed

lemma join_spaces_Nil: "join_spaces xs = [] \<Longrightarrow> \<forall>x\<in>set xs. x \<noteq> [] \<Longrightarrow> xs = []"
  by (induction xs rule: join_spaces.induct) auto

lemma join_spaces_snoc: "xs \<noteq> [] \<Longrightarrow> join_spaces (xs @ [x]) = join_spaces xs @ '' '' @ x"
  by (induction xs rule: join_spaces.induct) auto

text \<open>One step of the loop in terms of the lines that survive.\<close>

lemma extractText_step_keep:
  "extractText_step b line =
     (if keep line
      then (if b = [] then strings_TrimSpace line else b @ '' '' @ strings_TrimSpace line)
      else b)"
  by (simp add: extractText_step_def keep_def Let_def)

text \<open>
  The loop invariant: after the lines \<open>seen\<close>, all of them kept, the builder holds their
  trimmed texts joined by spaces.
\<close>

lemma foldl_extractText_step:
  "\<forall>x\<in>set seen. keep x \<Longrightarrow>
   foldl extractText_step (join_spaces (map strings_TrimSpace seen)) lines =
     join_spaces (map strings_TrimSpace (seen @ filter keep lines))"
proof (induction lines arbitrary: seen)
  case Nil
  then show ?case
    by simp
next
  case (Cons l lines)
  show ?case
  proof (cases "keep l")
    case False
    then show ?thesis
      using Cons by (simp add: extractText_step_keep)
  next
    case True
    have e: "join_spaces (map strings_TrimSpace seen) = [] \<longleftrightarrow> seen = []"
      using Cons.prems join_spaces_Nil[of "map strings_TrimSpace seen"] by (auto simp: keep_def)
    have "extractText_step (join_spaces (map strings_TrimSpace seen)) l
            = join_spaces (map strings_TrimSpace (seen @ [l]))"
      using True e by (cases "seen = []") (simp_all add: extractText_step_keep join_spaces_snoc)
    moreover have "\<forall>x\<in>set (seen @ [l]). keep x"
      using Cons.prems True by simp
    ultimately show ?thesis
      using Cons.IH[of "seen @ [l]"] True by simp
  qed
qed

lemma extractText_eq_spec: "extractText output = extractText_spec output"
proof -
  let ?ls = "strings_Split output (CHR 0x0A)"
  let ?kept = "map strings_TrimSpace (filter keep ?ls)"
  have f: "foldl extractText_step [] ?ls = join_spaces ?kept"
    using foldl_extractText_step[of "[]" ?ls] by simp
  have "strings_TrimSpace (join_spaces ?kept) = join_spaces ?kept"
  proof (cases "?kept = []")
    case True
    then show ?thesis
      by (simp add: TrimSpace_Nil)
  next
    case False
    moreover have "\<forall>x\<in>set ?kept. x \<noteq> [] \<and> \<not> space_prefix x \<and> \<not> space_suffix x"
      by (auto simp: keep_def TrimSpace_no_space)
    ultimately have "join_spaces ?kept \<noteq> [] \<and> \<not> space_prefix (join_spaces ?kept)
        \<and> \<not> space_suffix (join_spaces ?kept)"
      by (rule join_spaces_ends)
    then show ?thesis
      by (simp add: TrimSpace_id)
  qed
  then show ?thesis
    by (simp add: extractText_def extractText_spec_def f keep_def[abs_def])
qed

lemmas trim_defs =
  strings_TrimSpace_def TrimLeftFunc.simps TrimRightFunc.simps white_space_def
  strings_HasPrefix_def strings_HasSuffix_def

lemma extractText_ex_speech: "extractText ex_speech = ''hello world''"
  by (simp add: extractText_def ex_speech_def extractText_step_def trim_defs)

lemma extractText_ex_blank: "extractText ex_blank = []"
  by (simp add: extractText_def ex_blank_def extractText_step_def trim_defs)

lemma extractText_ex_unicode: "extractText ex_unicode = ''good day''"
  by (simp add: extractText_def ex_unicode_def extractText_step_def trim_defs)

text \<open>
  Claim C8. For every recognizer output, the text \<open>extractText\<close> returns is the text the
  specification describes (split on line breaks, drop the lines that are empty after
  trimming and those containing \<open>[BLANK_AUDIO]\<close>, trim the rest, join with single
  spaces), where trimming is \<^verbatim>\<open>strings.TrimSpace\<close>, which cuts Unicode white space.
  Whenever that text is empty, \<open>processJob\<close> leaves the service as it was (no message is
  appended to any log, nothing is published) and returns no error.
\<close>

theorem extractText_refines_spec:
  "extractText output = extractText_spec output
   \<and> (extractText_spec output = [] \<longrightarrow> processJob l s job (Output output) = (s, None))"
  by (simp add: extractText_eq_spec processJob_def)

theorem extractText_refines_spec_witness:
  "extractText_spec ex_blank = []
   \<and> processJob ex_lib ex_hub ex_job (Output ex_blank) = (ex_hub, None)
   \<and> extractText_spec ex_speech = ''hello world''
   \<and> extractText_spec ex_unicode = ''good day''"
  using extractText_refines_spec [of ex_blank ex_lib ex_hub ex_job]
    extractText_refines_spec [of ex_speech ex_lib ex_hub ex_job]
    extractText_refines_spec [of ex_unicode ex_lib ex_hub ex_job]
    extractText_ex_blank extractText_ex_speech extractText_ex_unicode
  by simp

subsection \<open>Publishing to the subscribers\<close>

lemma length_notify [simp]: "length (notify h cs data) = length h"
  by (induction cs arbitrary: h) simp_all

lemma notify_nth:
  "distinct cs \<Longrightarrow> i < length h \<Longrightarrow>
   notify h cs data ! i =
     (if i \<in> set cs then (h ! i)\<lparr>send := fst (try_send (send (h ! i)) data)\<rparr> else h ! i)"
proof (induction cs arbitrary: h)
  case Nil
  then show ?case
    by simp
next
  case (Cons a cs)
  let ?h = "h[a := (h ! a)\<lparr>send := fst (try_send (send (h ! a)) data)\<rparr>]"
  have d: "distinct cs" and a: "a \<notin> set cs" and i: "i < length ?h"
    using Cons.prems by simp_all
  show ?case
  proof (cases "a = i")
    case True
    then show ?thesis
      using Cons.IH[OF d i] a Cons.prems(2) by simp
  next
    case False
    then show ?thesis
      using Cons.IH[OF d i] by simp
  qed
qed

text \<open>
  Claim C9. A subscription made by \<open>handleWebSocket\<close> gets an empty outbound queue of 256
  slots. When \<open>processJob\<close> has a text to publish and the envelope serializes to \<open>data\<close>, it
  returns no error, allocates no connection, and deals with every connection \<open>i\<close> on its
  own: a subscriber of the job's endpoint whose queue has room gets \<open>data\<close> appended to
  its queue, once; a subscriber whose queue is full keeps its queue as it is (the
  message is dropped for it, with no retry); a connection that does not subscribe to
  the endpoint is untouched. \<open>processJob\<close> is a total function: it returns whatever the
  queues hold, so the publisher does not wait for room. The subscriber list holds each
  connection once (\<open>distinct\<close>), since every subscription allocates a new connection.
\<close>

theorem publish_is_nonblocking:
  assumes "extractText out \<noteq> []"
    and "json_Marshal l (envelope job (mkMessage job (extractText out))) = Some data"
    and "subscribers s (ClientID job) = Some cs"
    and "distinct cs"
    and "i < length (heap s)"
  shows "snd (processJob l s job (Output out)) = None
     \<and> length (heap (fst (processJob l s job (Output out)))) = length (heap s)
     \<and> heap (fst (processJob l s job (Output out))) ! i =
         (if i \<in> set cs \<and> length (buf (send (heap s ! i))) < cap (send (heap s ! i))
          then (heap s ! i)\<lparr>send := (send (heap s ! i))\<lparr>buf := buf (send (heap s ! i)) @ [data]\<rparr>\<rparr>
          else heap s ! i)
     \<and> (uuid_Parse l cid \<and> Upgrade l = Upgraded \<longrightarrow>
          heap (fst (handleWebSocket l s cid)) =
            heap s @ [\<lparr>clientID = cid, send = \<lparr>buf = [], cap = 256\<rparr>\<rparr>]
          \<and> subscribers (fst (handleWebSocket l s cid)) cid =
              Some ((case subscribers s cid of None \<Rightarrow> [] | Some xs \<Rightarrow> xs) @ [length (heap s)]))"
proof -
  have p: "processJob l s job (Output out) =
      (s\<lparr>clients := (clients s)(ClientID job \<mapsto>
            (case clients s (ClientID job) of None \<Rightarrow> [] | Some ms \<Rightarrow> ms)
              @ [mkMessage job (extractText out)]),
         heap := notify (heap s) cs data\<rparr>, None)"
    using assms(1-3) by (simp add: processJob_def Let_def)
  have n: "notify (heap s) cs data ! i =
      (if i \<in> set cs \<and> length (buf (send (heap s ! i))) < cap (send (heap s ! i))
       then (heap s ! i)\<lparr>send := (send (heap s ! i))\<lparr>buf := buf (send (heap s ! i)) @ [data]\<rparr>\<rparr>
       else heap s ! i)"
    using notify_nth[OF assms(4,5), of data] by (simp add: try_send_def)
  have w: "uuid_Parse l cid \<and> Upgrade l = Upgraded \<longrightarrow>
          heap (fst (handleWebSocket l s cid)) =
            heap s @ [\<lparr>clientID = cid, send = \<lparr>buf = [], cap = 256\<rparr>\<rparr>]
          \<and> subscribers (fst (handleWebSocket l s cid)) cid =
              Some ((case subscribers s cid of None \<Rightarrow> [] | Some xs \<Rightarrow> xs) @ [length (heap s)])"
    by (simp add: handleWebSocket_def registerSubscriber_def make_chan_def Let_def)
  show ?thesis
    using n w by (simp add: p)
qed

theorem publish_is_nonblocking_witness:
  "snd (processJob ex_lib ex_hub ex_job (Output ex_speech)) = None
   \<and> heap (fst (processJob ex_lib ex_hub ex_job (Output ex_speech))) ! 0 = heap ex_hub ! 0
   \<and> length (buf (send (heap ex_hub ! 0))) = 256
   \<and> heap (fst (processJob ex_lib ex_hub ex_job (Output ex_speech))) ! 1 =
       \<lparr>clientID = ex_id, send = \<lparr>buf = [''hello world''], cap = 256\<rparr>\<rparr>
   \<and> heap (fst (handleWebSocket ex_lib ex_hub ex_id)) =
       heap ex_hub @ [\<lparr>clientID = ex_id, send = \<lparr>buf = [], cap = 256\<rparr>\<rparr>]
   \<and> subscribers (fst (handleWebSocket ex_lib ex_hub ex_id)) ex_id = Some [0, 1, 2]"
  using publish_is_nonblocking [of ex_speech ex_lib ex_job "''hello world''" ex_hub "[0, 1]" 0 ex_id]
    publish_is_nonblocking [of ex_speech ex_lib ex_job "''hello world''" ex_hub "[0, 1]" 1 ex_id]
  by (simp add: extractText_ex_speech ex_lib_def ex_hub_def ex_job_def ex_id_def New_def
      mkMessage_def envelope_def make_chan_def)

section \<open>Facts about the watcher\<close>

text \<open>
  Claim C7, as amended. The job queue of a new service is empty and has 100 slots, and
  \<open>handleFSEvent\<close> never changes the number of slots. An event is \<open>accepted\<close> when it is
  a create event, its path does not end in \<open>.tmp\<close>, the path relative to the recordings
  root has exactly three components, the first is the current day, the second parses
  as an endpoint id, and the leaf ends in \<open>.wav\<close> and contains \<open>_whisper\<close> somewhere.
  \<open>handleFSEvent\<close> puts a job into the queue exactly when the event is accepted and the
  queue has room, and then it returns no error; the job carries the path of the event,
  the endpoint id and the time. An accepted event that finds the queue full leaves the
  queue as it is and is answered with the error \<open>ErrQueueFull\<close>: the job is dropped. In
  every other case the queue is left as it is and that error is not returned; so a
  path ending in \<open>.tmp\<close> and an event outside the current day's subtree never enqueue a
  job.
\<close>

theorem handleFSEvent_enqueues:
  "queue (New dir) = \<lparr>buf = [], cap = 100\<rparr>
   \<and> cap (queue (fst (handleFSEvent l s ev))) = cap (queue s)
   \<and> (let accepted =
             (Op ev = Create \<and> \<not> strings_HasSuffix (Name ev) ''.tmp''
              \<and> (\<exists>cid leaf.
                    map_option (\<lambda>rel. strings_Split rel (CHR ''/''))
                        (filepath_Rel l (RecordingsDir s) (Name ev))
                      = Some [getCurrentDateDir l, cid, leaf]
                    \<and> uuid_Parse l cid
                    \<and> strings_HasSuffix leaf ''.wav'' \<and> strings_Contains leaf ''_whisper''));
            room = (length (buf (queue s)) < cap (queue s));
            job = \<lparr>FilePath = Name ev,
                   ClientID = strings_Split (the (filepath_Rel l (RecordingsDir s) (Name ev)))
                                (CHR ''/'') ! 1,
                   JobTimestamp = job_time l\<rparr>
        in queue (fst (handleFSEvent l s ev)) =
             (if accepted \<and> room then (queue s)\<lparr>buf := buf (queue s) @ [job]\<rparr> else queue s)
           \<and> (snd (handleFSEvent l s ev) = Some ErrQueueFull) = (accepted \<and> \<not> room)
           \<and> (accepted \<and> room \<longrightarrow> snd (handleFSEvent l s ev) = None))"
proof (cases "filepath_Rel l (RecordingsDir s) (Name ev)")
  case None
  then show ?thesis
    by (simp add: handleFSEvent_def New_def make_chan_def)
next
  case (Some rel)
  then show ?thesis
    by (simp add: handleFSEvent_def handleNewClient_def handleNewAudioFile_def try_send_def
        New_def make_chan_def Let_def)
      (auto simp: length_Suc_conv numeral_2_eq_2 numeral_3_eq_3)
qed

theorem handleFSEvent_enqueues_witness:
  "queue (New ''recordings'') = \<lparr>buf = [], cap = 100\<rparr>
   \<and> queue (fst (handleFSEvent ex_lib (ex_scribe 99) (ex_event ''audio_120000_whisper.wav'')))
       = \<lparr>buf = replicate 99 ex_job
                 @ [\<lparr>FilePath = Name (ex_event ''audio_120000_whisper.wav''), ClientID = ex_id,
                     JobTimestamp = 7\<rparr>],
          cap = 100\<rparr>
   \<and> snd (handleFSEvent ex_lib (ex_scribe 99) (ex_event ''audio_120000_whisper.wav'')) = None
   \<and> queue (fst (handleFSEvent ex_lib (ex_scribe 100) (ex_event ''audio_120000_whisper.wav'')))
       = queue (ex_scribe 100)
   \<and> snd (handleFSEvent ex_lib (ex_scribe 100) (ex_event ''audio_120000_whisper.wav''))
       = Some ErrQueueFull
   \<and> queue (fst (handleFSEvent ex_lib (ex_scribe 0) (ex_event ''audio_120000.wav.tmp'')))
       = queue (ex_scribe 0)
   \<and> snd (handleFSEvent ex_lib (ex_scribe 100) (ex_event ''audio_120000.wav'')) \<noteq> Some ErrQueueFull"
  using
    handleFSEvent_enqueues [of "''recordings''" ex_lib "ex_scribe 99"
      "ex_event ''audio_120000_whisper.wav''"]
    handleFSEvent_enqueues [of "''recordings''" ex_lib "ex_scribe 100"
      "ex_event ''audio_120000_whisper.wav''"]
    handleFSEvent_enqueues [of "''recordings''" ex_lib "ex_scribe 0"
      "ex_event ''audio_120000.wav.tmp''"]
    handleFSEvent_enqueues [of "''recordings''" ex_lib "ex_scribe 100"
      "ex_event ''audio_120000.wav''"]
  by (simp add: ex_lib_def ex_scribe_def ex_event_def ex_id_def New_def make_chan_def Create_def
      strings_HasSuffix_def strings_HasPrefix_def Let_def)

text \<open>
  The claim as stated fails in both directions. With 100 jobs waiting in the queue of
  100 slots, a create event for \<open>audio_120000_whisper.wav\<close> in today's directory of an
  endpoint meets every condition of the claim, and no job is enqueued: the event is
  answered with the error \<open>ErrQueueFull\<close>. And the leaf \<open>my_whisper_notes.wav\<close> does not
  end in \<open>_whisper.wav\<close>, yet a job is enqueued for it.
\<close>

theorem handleFSEvent_counterexample:
  "Op (ex_event ''audio_120000_whisper.wav'') = Create
   \<and> map_option (\<lambda>rel. strings_Split rel (CHR ''/''))
        (filepath_Rel ex_lib (RecordingsDir (ex_scribe 100))
           (Name (ex_event ''audio_120000_whisper.wav'')))
       = Some [getCurrentDateDir ex_lib, ex_id, ''audio_120000_whisper.wav'']
   \<and> uuid_Parse ex_lib ex_id
   \<and> strings_HasSuffix ''audio_120000_whisper.wav'' ''_whisper.wav''
   \<and> handleFSEvent ex_lib (ex_scribe 100) (ex_event ''audio_120000_whisper.wav'')
       = (ex_scribe 100, Some ErrQueueFull)
   \<and> \<not> strings_HasSuffix ''my_whisper_notes.wav'' ''_whisper.wav''
   \<and> buf (queue (fst (handleFSEvent ex_lib (ex_scribe 0) (ex_event ''my_whisper_notes.wav''))))
       = [\<lparr>FilePath = Name (ex_event ''my_whisper_notes.wav''), ClientID = ex_id,
           JobTimestamp = 7\<rparr>]"
  by (simp add: handleFSEvent_def handleNewAudioFile_def try_send_def ex_lib_def ex_scribe_def
      ex_event_def ex_id_def New_def make_chan_def Create_def strings_HasSuffix_def
      strings_HasPrefix_def Let_def)

section \<open>Facts about the connection handler\<close>

subsection \<open>Prefixes and reads\<close>

lemma BigEndian_roundtrip: "BigEndian_Uint32 (BigEndian_PutUint32 n) = n"
proof (rule bit_word_eqI)
  fix k
  assume "k < LENGTH(32)"
  then have k: "k < 32"
    by simp
  consider "k < 8" | "8 \<le> k" "k < 16" | "16 \<le> k" "k < 24" | "24 \<le> k"
    by linarith
  then show "bit (BigEndian_Uint32 (BigEndian_PutUint32 n)) k = bit n k"
    using k by cases (auto simp add: BigEndian_Uint32_def BigEndian_PutUint32_def bit_simps)
qed

lemma length_PutUint32 [simp]: "length (BigEndian_PutUint32 n) = 4"
  by (simp add: BigEndian_PutUint32_def)

lemma io_ReadFull_append: "length m = n \<Longrightarrow> io_ReadFull (m @ tail) n = Inr (m, tail)"
  by (simp add: io_ReadFull_def)

lemma BigEndian_start: "BigEndian_Uint32 start_marker = 0xFFFFFFFF"
  by (simp add: BigEndian_Uint32_def start_marker_def)

lemma BigEndian_end: "BigEndian_Uint32 end_marker = 0"
  by (simp add: BigEndian_Uint32_def end_marker_def)

lemma take_frame: "take 4 (frame p) = BigEndian_PutUint32 (of_nat (length p))"
  by (simp add: frame_def)

lemma unat_frame_length:
  assumes "payload_ok p"
  shows "unat (of_nat (length p) :: 32 word) = length p"
    and "(of_nat (length p) :: 32 word) \<noteq> 0"
    and "(of_nat (length p) :: 32 word) \<noteq> 0xFFFFFFFF"
proof -
  have lt: "length p < 2 ^ 32" "0 < length p" "length p \<noteq> 4294967295"
    using assms by (simp_all add: payload_ok_def)
  show u: "unat (of_nat (length p) :: 32 word) = length p"
    using lt(1) by (simp add: unat_of_nat)
  show "(of_nat (length p) :: 32 word) \<noteq> 0"
    using u lt(2) by (metis less_numeral_extra(3) unat_0)
  have "unat (0xFFFFFFFF :: 32 word) = 4294967295"
    by simp
  then show "(of_nat (length p) :: 32 word) \<noteq> 0xFFFFFFFF"
    using u lt(3) by metis
qed

lemma length_wav_path: "4 \<le> length (wav_path e today t)"
  by (simp add: wav_path_def)

lemma descriptor_data_size:
  "LittleEndian_Uint32 (take 4 (drop 40 (descriptor d @ payload))) = d"
  by (simp add: descriptor_def LittleEndian_Uint32_le32)

subsection \<open>One pass of the loop, by the kind of prefix\<close>

text \<open>A payload frame while receiving: the prefix is any value but the two markers.\<close>

lemma iteration_payload:
  assumes "isReceivingTransmission s"
    and "conn_in s = BigEndian_PutUint32 n @ tail"
    and "n \<noteq> 0" and "n \<noteq> 0xFFFFFFFF"
  shows "iteration e s =
     (if unat n \<le> length tail then
        ctx_poll e
          (s\<lparr>conn_in := drop (unat n) tail,
             transmissionBuffer := transmissionBuffer s @ take (unat n) tail,
             os := (case wavfile s of
                      Some h \<Rightarrow> fst (File_Write (os s) h (take (unat n) tail))
                    | None \<Rightarrow> os s)\<rparr>)
      else Return (s\<lparr>conn_in := []\<rparr>))"
  using assms
  by (simp add: iteration_def io_ReadFull_append BigEndian_roundtrip Let_def io_ReadFull_def[of tail]
      split: option.splits)

text \<open>A start marker, when the directories and the file can be created.\<close>

lemma iteration_start:
  assumes "conn_in s = start_marker @ tail"
    and "\<not> MkdirAll_fails e (now_calls s + 2)"
    and "\<not> Create_fails e (now_calls s + 3)"
  shows "iteration e s =
     ctx_poll e
       (s\<lparr>conn_in := tail, isReceivingTransmission := True, transmissionBuffer := [],
          transmissionStartTime := clock e (now_calls s),
          wavfile := Some (length (fds (os s))),
          os := (os s)\<lparr>files := (files (os s))
                         (wav_path e (clock e (now_calls s + 1)) (clock e (now_calls s + 2))
                            \<mapsto> descriptor 0),
                       fds := fds (os s) @
                         [\<lparr>fname = wav_path e (clock e (now_calls s + 1)) (clock e (now_calls s + 2)),
                           offset = 44, closed = False\<rparr>]\<rparr>,
          now_calls := now_calls s + 3\<rparr>)"
proof -
  have r: "io_ReadFull (conn_in s) 4 = Inr (start_marker, tail)"
    unfolding assms(1) by (rule io_ReadFull_append) (simp add: start_marker_def)
  show ?thesis
    using assms(2,3)
    by (auto simp add: iteration_def r BigEndian_start time_Now_def startFile_def createWavFile_def
        os_Create_def WriteWavHeader_def binary_Write_mkWavHeader File_Write_def is_open_def
        pwrite_def wav_path_def Let_def numeral_2_eq_2 numeral_3_eq_3
        intro!: arg_cong[where f = "ctx_poll e"] handler.equality world.equality)
qed

text \<open>An end marker less than a second after the start, with an open file.\<close>

lemma iteration_end_short:
  assumes "conn_in s = end_marker @ rest"
    and "wavfile s = Some h" and "h < length (fds (os s))" and "\<not> closed (fds (os s) ! h)"
    and "files (os s) (fname (fds (os s) ! h)) = Some c"
    and "saturate (clock e (now_calls s) - transmissionStartTime s) < Second"
  shows "iteration e s =
     ctx_poll e
       (s\<lparr>conn_in := rest, isReceivingTransmission := False, now_calls := Suc (now_calls s),
          os := (os s)\<lparr>fds := (fds (os s))[h := (fds (os s) ! h)\<lparr>closed := True\<rparr>],
                       files := (files (os s))(fname (fds (os s) ! h) := None)\<rparr>\<rparr>)"
proof -
  have r: "io_ReadFull (conn_in s) 4 = Inr (end_marker, rest)"
    unfolding assms(1) by (rule io_ReadFull_append) (simp add: end_marker_def)
  show ?thesis
    using assms(2-)
    by (auto simp add: iteration_def r BigEndian_end time_Now_def time_Since_def
        File_Close_def File_Name_def os_Remove_def is_open_def Let_def
        intro!: arg_cong[where f = "ctx_poll e"] handler.equality world.equality)
qed

text \<open>
  An end marker a second or more after the start, with an open file that holds a
  header and a payload: the header is patched, the file is closed, and the transcoder
  runs on it. \<open>final\<close> is what the file holds when the transcoder runs.
\<close>

lemma iteration_end_long:
  assumes "conn_in s = end_marker @ rest"
    and "wavfile s = Some h" and "h < length (fds (os s))" and "\<not> closed (fds (os s) ! h)"
    and "fname (fds (os s) ! h) = name"
    and "files (os s) name = Some (descriptor d0 @ payload)"
    and "4 \<le> length name"
    and "\<not> saturate (clock e (now_calls s) - transmissionStartTime s) < Second"
  shows "iteration e s =
     ctx_poll e
       (s\<lparr>conn_in := rest, isReceivingTransmission := False, now_calls := Suc (now_calls s),
          wavfile := None,
          os :=
            (let final = descriptor (of_nat (length (transmissionBuffer s))) @ payload;
                 out = take (length name - 4) name @ ''_whisper.wav''
             in (os s)\<lparr>fds := (fds (os s))[h := (fds (os s) ! h)\<lparr>offset := 44, closed := True\<rparr>],
                       cmds := cmds (os s) @
                         [\<lparr>Args = [''ffmpeg'', ''-i'', name, ''-ar'', ''16000'', ''-ac'', ''1'',
                                    ''-y'', out],
                           input_seen = Some final\<rparr>],
                       files := (case ffmpeg e name (Some final) of
                                   None \<Rightarrow> (files (os s))(name \<mapsto> final)
                                 | Some res \<Rightarrow>
                                     ((files (os s))(name \<mapsto> final, out \<mapsto> res))(name := None))\<rparr>)\<rparr>)"
proof -
  have r: "io_ReadFull (conn_in s) 4 = Inr (end_marker, rest)"
    unfolding assms(1) by (rule io_ReadFull_append) (simp add: end_marker_def)
  have u: "UpdateWavHeader (os s) h d =
     ((os s)\<lparr>files := (files (os s))(name \<mapsto> descriptor d @ payload),
        fds := (fds (os s))[h := (fds (os s) ! h)\<lparr>offset := 44\<rparr>]\<rparr>, None)" for d
    using UpdateWavHeader_open[of h "os s" "descriptor d0 @ payload" d] assms(3-6)
    by (simp add: patch_descriptor)
  show ?thesis
    using assms(2-)
    by (auto simp add: iteration_def r BigEndian_end time_Now_def time_Since_def
        finishCurrentFile_def u File_Close_def File_Name_def os_Remove_def is_open_def
        ResampleForWhisper_def whisperPath_def Let_def
        split: option.splits
        intro!: arg_cong[where f = "ctx_poll e"] handler.equality world.equality)
qed

subsection \<open>An utterance, pass by pass\<close>

lemma os_state_of_ctx_poll [simp]: "os (state_of (ctx_poll e s)) = os s"
  by (simp add: ctx_poll_def state_of_def)

lemma passes_add: "passes n e s = Continue s' \<Longrightarrow> passes (n + m) e s = passes m e s'"
  by (induction n arbitrary: s) (auto split: outcome.splits)

lemma passes_1: "passes (Suc 0) e s = iteration e s"
  by (simp split: outcome.splits)

lemma passes_numeral:
  "passes (numeral k) e s =
     (case iteration e s of
        Continue s' \<Rightarrow> passes (pred_numeral k) e s'
      | Return s' \<Rightarrow> Return s'
      | Panic s' \<Rightarrow> Panic s')"
  by (simp add: numeral_eq_Suc)

lemma iteration_start_recording:
  assumes "conn_in s = start_marker @ tail"
    and "\<not> MkdirAll_fails e (now_calls s + 2)"
    and "\<not> Create_fails e (now_calls s + 3)"
    and "\<not> ctx_Done e (polls s)"
  shows "\<exists>s'. iteration e s = Continue s'
           \<and> recording s' (length (fds (os s)))
                 (wav_path e (clock e (now_calls s + 1)) (clock e (now_calls s + 2))) []
           \<and> conn_in s' = tail \<and> polls s' = Suc (polls s) \<and> now_calls s' = now_calls s + 3
           \<and> transmissionStartTime s' = clock e (now_calls s)
           \<and> cmds (os s') = cmds (os s) \<and> conn_closed s' = conn_closed s"
  using assms(4)
  by (simp add: iteration_start[OF assms(1-3)] ctx_poll_def recording_def)

lemma iteration_frame:
  assumes "recording s h name acc"
    and "conn_in s = frame p @ tail"
    and "payload_ok p"
    and "\<not> ctx_Done e (polls s)"
  shows "\<exists>s'. iteration e s = Continue s' \<and> recording s' h name (acc @ p) \<and> conn_in s' = tail
           \<and> polls s' = Suc (polls s) \<and> now_calls s' = now_calls s
           \<and> transmissionStartTime s' = transmissionStartTime s
           \<and> cmds (os s') = cmds (os s) \<and> conn_closed s' = conn_closed s"
proof -
  let ?n = "of_nat (length p) :: 32 word"
  have c: "conn_in s = BigEndian_PutUint32 ?n @ (p @ tail)"
    using assms(2) by (simp add: frame_def)
  have r: "isReceivingTransmission s"
    using assms(1) by (simp add: recording_def)
  note it = iteration_payload[OF r c unat_frame_length(2,3)[OF assms(3)], of e]
  show ?thesis
    using assms(1,4)
    by (simp add: it unat_frame_length(1)[OF assms(3)] ctx_poll_def recording_def File_Write_def
        is_open_def pwrite_def Let_def)
qed

lemma passes_frames:
  assumes "recording s h name acc"
    and "conn_in s = concat (map frame ps) @ tail"
    and "\<forall>p\<in>set ps. payload_ok p"
    and "\<forall>k<length ps. \<not> ctx_Done e (polls s + k)"
  shows "\<exists>s'. passes (length ps) e s = Continue s' \<and> recording s' h name (acc @ concat ps)
           \<and> conn_in s' = tail
           \<and> polls s' = polls s + length ps \<and> now_calls s' = now_calls s
           \<and> transmissionStartTime s' = transmissionStartTime s
           \<and> cmds (os s') = cmds (os s) \<and> conn_closed s' = conn_closed s"
  using assms
proof (induction ps arbitrary: s acc)
  case Nil
  then show ?case
    by simp
next
  case (Cons p ps)
  have c: "conn_in s = frame p @ (concat (map frame ps) @ tail)"
    using Cons.prems(2) by simp
  have ok: "payload_ok p" and oks: "\<forall>p\<in>set ps. payload_ok p"
    using Cons.prems(3) by simp_all
  have nd: "\<not> ctx_Done e (polls s)"
    using Cons.prems(4) by force
  obtain s1 where s1: "iteration e s = Continue s1" "recording s1 h name (acc @ p)"
      "conn_in s1 = concat (map frame ps) @ tail" "polls s1 = Suc (polls s)"
      "now_calls s1 = now_calls s" "transmissionStartTime s1 = transmissionStartTime s"
      "cmds (os s1) = cmds (os s)" "conn_closed s1 = conn_closed s"
    using iteration_frame[OF Cons.prems(1) c ok nd] by blast
  have nds: "\<forall>k<length ps. \<not> ctx_Done e (polls s1 + k)"
  proof (intro allI impI)
    fix k
    assume "k < length ps"
    then have "Suc k < length (p # ps)"
      by simp
    then have "\<not> ctx_Done e (polls s + Suc k)"
      using Cons.prems(4) by blast
    then show "\<not> ctx_Done e (polls s1 + k)"
      by (simp add: s1(4))
  qed
  obtain s' where s': "passes (length ps) e s1 = Continue s'"
      "recording s' h name ((acc @ p) @ concat ps)" "conn_in s' = tail"
      "polls s' = polls s1 + length ps" "now_calls s' = now_calls s1"
      "transmissionStartTime s' = transmissionStartTime s1" "cmds (os s') = cmds (os s1)"
      "conn_closed s' = conn_closed s1"
    using Cons.IH[OF s1(2,3) oks nds] by blast
  show ?case
    using s1 s' by simp
qed

text \<open>
  A whole utterance a second or more long: a start marker, the payload frames \<open>ps\<close> and
  an end marker, with no failure to create the file and no cancellation on the way.
  The transcoder is run last, on a closed file that holds \<open>container\<close>.
\<close>

lemma utterance:
  assumes "conn_in s = start_marker @ concat (map frame ps) @ end_marker @ rest"
    and "\<forall>p\<in>set ps. payload_ok p"
    and "\<not> MkdirAll_fails e (now_calls s + 2)"
    and "\<not> Create_fails e (now_calls s + 3)"
    and "\<forall>k\<le>length ps. \<not> ctx_Done e (polls s + k)"
    and "Second \<le> saturate (clock e (now_calls s + 3) - clock e (now_calls s))"
    and "name = wav_path e (clock e (now_calls s + 1)) (clock e (now_calls s + 2))"
    and "container = descriptor (of_nat (length (concat ps))) @ concat ps"
  shows "\<exists>s'. passes (length ps + 2) e s = ctx_poll e s'
           \<and> cmds (os s') = cmds (os s) @
                 [\<lparr>Args = [''ffmpeg'', ''-i'', name, ''-ar'', ''16000'', ''-ac'', ''1'', ''-y'',
                            take (length name - 4) name @ ''_whisper.wav''],
                   input_seen = Some container\<rparr>]
           \<and> closed (fds (os s') ! length (fds (os s)))
           \<and> wavfile s' = None \<and> \<not> isReceivingTransmission s' \<and> conn_in s' = rest"
proof -
  let ?h = "length (fds (os s))"
  have nd0: "\<not> ctx_Done e (polls s)"
    using assms(5) by force
  obtain s1 where s1: "iteration e s = Continue s1" "recording s1 ?h name []"
      "conn_in s1 = concat (map frame ps) @ (end_marker @ rest)" "polls s1 = Suc (polls s)"
      "now_calls s1 = now_calls s + 3" "transmissionStartTime s1 = clock e (now_calls s)"
      "cmds (os s1) = cmds (os s)"
    using iteration_start_recording[OF assms(1,3,4) nd0] assms(7) by auto
  have nds: "\<forall>k<length ps. \<not> ctx_Done e (polls s1 + k)"
  proof (intro allI impI)
    fix k
    assume "k < length ps"
    then have "Suc k \<le> length ps"
      by simp
    then have "\<not> ctx_Done e (polls s + Suc k)"
      using assms(5) by blast
    then show "\<not> ctx_Done e (polls s1 + k)"
      by (simp add: s1(4))
  qed
  obtain s2 where s2: "passes (length ps) e s1 = Continue s2"
      "recording s2 ?h name ([] @ concat ps)" "conn_in s2 = end_marker @ rest"
      "now_calls s2 = now_calls s1" "transmissionStartTime s2 = transmissionStartTime s1"
      "cmds (os s2) = cmds (os s1)"
    using passes_frames[OF s1(2,3) assms(2) nds] by blast
  have p1: "passes (Suc (length ps)) e s = Continue s2"
    using s1(1) s2(1) by simp
  have eq: "length ps + 2 = Suc (length ps) + Suc 0"
    by simp
  have p2: "passes (length ps + 2) e s = iteration e s2"
    using passes_add[OF p1, of "Suc 0"] by (simp only: eq passes_1)
  have rec: "wavfile s2 = Some ?h" "?h < length (fds (os s2))" "\<not> closed (fds (os s2) ! ?h)"
      "fname (fds (os s2) ! ?h) = name" "files (os s2) name = Some (descriptor 0 @ concat ps)"
      "transmissionBuffer s2 = concat ps"
    using s2(2) by (simp_all add: recording_def)
  have long: "\<not> saturate (clock e (now_calls s2) - transmissionStartTime s2) < Second"
    using assms(6) by (simp add: s2 s1)
  have len: "4 \<le> length name"
    by (simp add: assms(7) length_wav_path)
  show ?thesis
    unfolding p2 iteration_end_long[OF s2(3) rec(1-5) len long]
    by (rule exI, rule conjI, rule refl) (simp add: rec s2 s1 assms(8) Let_def)
qed

subsection \<open>The example environment\<close>

lemmas model_defs =
  handleConnection_def iteration_def io_ReadFull_def BigEndian_Uint32_def time_Now_def
  time_Since_def startFile_def createWavFile_def finishCurrentFile_def
  handleIncompleteTransmission_def os_Create_def os_Remove_def os_Rename_def WriteWavHeader_def
  UpdateWavHeader_def File_Write_def File_Seek_def File_Close_def File_Name_def is_open_def
  pwrite_def binary_Write_mkWavHeader ctx_poll_def deferred_conn_def deferred_file_def
  ResampleForWhisper_def whisperPath_def Second_def saturate_def Let_def loop.simps
  state_of_def goes_on_def

lemmas ex_defs =
  ex_env_def ex_conn_def start_marker_def end_marker_def frame_def BigEndian_PutUint32_def
  ex_path_def ex_hms_def ex_id_def clock_at_def

lemma ex_wav_path: "t < Second \<Longrightarrow> wav_path (ex_env clk) today t = ex_path ''120000''"
  by (simp add: wav_path_def ex_env_def ex_path_def ex_hms_def)

lemma ex_start:
  "\<exists>s'. iteration (ex_env (clock_at t)) (ex_conn (start_marker @ tail)) = Continue s'
      \<and> recording s' 0 (ex_path ''120000'') [] \<and> conn_in s' = tail \<and> polls s' = 1
      \<and> now_calls s' = 3 \<and> transmissionStartTime s' = 0 \<and> cmds (os s') = []
      \<and> \<not> conn_closed s'"
proof -
  let ?e = "ex_env (clock_at t)" and ?s = "ex_conn (start_marker @ tail)"
  have c: "conn_in ?s = start_marker @ tail"
    by (simp add: ex_conn_def)
  have m: "\<not> MkdirAll_fails ?e (now_calls ?s + 2)" "\<not> Create_fails ?e (now_calls ?s + 3)"
    by (simp_all add: ex_env_def)
  have w: "wav_path ?e (clock ?e (now_calls ?s + 1)) (clock ?e (now_calls ?s + 2))
      = ex_path ''120000''"
    by (rule ex_wav_path) (simp add: ex_env_def ex_conn_def clock_at_def Second_def)
  show ?thesis
    unfolding iteration_start[OF c m] w
    by (simp add: ctx_poll_def recording_def ex_env_def ex_conn_def clock_at_def)
qed

text \<open>
  The loop is left by a return or by a panic only, and the deferred functions then
  close the connection: whenever \<open>handleConnection\<close> is over, the connection is closed.
\<close>

lemma loop_leaves: "loop e s \<noteq> Continue s'"
proof (induction e s rule: loop.induct)
  case (1 e s)
  then show ?case
    by (cases "iteration e s") (simp_all add: loop.simps[of e s])
qed

lemma handleConnection_closes:
  "\<exists>s'. (handleConnection e s = Return s' \<or> handleConnection e s = Panic s') \<and> conn_closed s'"
proof (cases "Write_fails e")
  case True
  then show ?thesis
    by (simp add: handleConnection_def deferred_conn_def)
next
  case False
  let ?s0 = "s\<lparr>conn_out := conn_out s @ clientID_bytes e,
                   transmissionBuffer := [], isReceivingTransmission := False,
                   wavfile := None, transmissionStartTime := 0\<rparr>"
  show ?thesis
    using False loop_leaves[of e ?s0]
    by (cases "loop e ?s0") (auto simp add: handleConnection_def deferred_conn_def Let_def)
qed

subsection \<open>Payload frames\<close>

text \<open>
  Claim C2, as amended. The handler has no maximum chunk size. While it is receiving, a
  prefix \<open>n\<close> that is neither marker is a payload frame whatever its value. When \<open>n\<close>
  bytes follow, they are read and appended to the buffer and written to the file, if
  one is open (a file \<open>f\<close> that holds \<open>c\<close> and is written at its end then holds \<open>c\<close>
  followed by the \<open>n\<close> bytes); nothing else changes but the count of the checks of the
  context. The check of the context that ends every pass of the loop then decides: the
  loop goes on with the next frame, unless the context is found cancelled, in which
  case the handler returns. When fewer than \<open>n\<close> bytes arrive before the connection
  ends, the handler returns at once, and neither the buffer nor the file has changed.
  These are the only two ways a payload frame makes the handler return (and so close
  the connection, as \<open>handleConnection_closes\<close> shows), and neither depends on the size
  \<open>n\<close>.
\<close>

theorem payload_frame_has_no_cap:
  assumes "isReceivingTransmission s"
    and "conn_in s = BigEndian_PutUint32 n @ tail"
    and "n \<noteq> 0" and "n \<noteq> 0xFFFFFFFF"
  shows "let chunkData = take (unat n) tail;
             s' = s\<lparr>conn_in := drop (unat n) tail,
                    transmissionBuffer := transmissionBuffer s @ chunkData,
                    os := (case wavfile s of
                             Some h \<Rightarrow> fst (File_Write (os s) h chunkData)
                           | None \<Rightarrow> os s),
                    polls := Suc (polls s)\<rparr>
         in iteration e s =
              (if length tail < unat n then Return (s\<lparr>conn_in := []\<rparr>)
               else if ctx_Done e (polls s) then Return s'
               else Continue s')
            \<and> loop e s =
              (if length tail < unat n then Return (s\<lparr>conn_in := []\<rparr>)
               else if ctx_Done e (polls s) then Return s'
               else loop e s')
            \<and> (wavfile s = Some f \<and> f < length (fds (os s)) \<and> \<not> closed (fds (os s) ! f)
                  \<and> files (os s) (fname (fds (os s) ! f)) = Some c
                  \<and> offset (fds (os s) ! f) = length c \<longrightarrow>
                files (os s') (fname (fds (os s) ! f)) = Some (c @ chunkData)
                \<and> fds (os s') ! f = (fds (os s) ! f)\<lparr>offset := length c + length chunkData\<rparr>)"
proof -
  define chunkData where "chunkData = take (unat n) tail"
  define s' where "s' = s\<lparr>conn_in := drop (unat n) tail,
                    transmissionBuffer := transmissionBuffer s @ chunkData,
                    os := (case wavfile s of
                             Some h \<Rightarrow> fst (File_Write (os s) h chunkData)
                           | None \<Rightarrow> os s),
                    polls := Suc (polls s)\<rparr>"
  have it: "iteration e s =
              (if length tail < unat n then Return (s\<lparr>conn_in := []\<rparr>)
               else if ctx_Done e (polls s) then Return s'
               else Continue s')"
    unfolding s'_def chunkData_def by (simp add: iteration_payload[OF assms] ctx_poll_def)
  have lp: "loop e s =
              (if length tail < unat n then Return (s\<lparr>conn_in := []\<rparr>)
               else if ctx_Done e (polls s) then Return s'
               else loop e s')"
    by (simp add: loop.simps[of e s] it)
  have fl: "wavfile s = Some f \<and> f < length (fds (os s)) \<and> \<not> closed (fds (os s) ! f)
                  \<and> files (os s) (fname (fds (os s) ! f)) = Some c
                  \<and> offset (fds (os s) ! f) = length c \<longrightarrow>
                files (os s') (fname (fds (os s) ! f)) = Some (c @ chunkData)
                \<and> fds (os s') ! f = (fds (os s) ! f)\<lparr>offset := length c + length chunkData\<rparr>"
    by (simp add: s'_def File_Write_open pwrite_def)
  show ?thesis
    using it lp fl unfolding Let_def chunkData_def[symmetric] s'_def[symmetric] by blast
qed

text \<open>
  Three runs after a start marker: a frame of four bytes on a live server, the same
  frame during a shutdown, and a frame that announces four bytes and ends after two.
\<close>

theorem payload_frame_has_no_cap_witness:
  "goes_on (iteration (ex_env (clock_at 0))
      (state_of (iteration (ex_env (clock_at 0))
         (ex_conn (start_marker @ BigEndian_PutUint32 4 @ [0, 1, 0, 2])))))
   \<and> transmissionBuffer (state_of (iteration (ex_env (clock_at 0))
      (state_of (iteration (ex_env (clock_at 0))
         (ex_conn (start_marker @ BigEndian_PutUint32 4 @ [0, 1, 0, 2])))))) = [0, 1, 0, 2]
   \<and> files (os (state_of (iteration (ex_env (clock_at 0))
      (state_of (iteration (ex_env (clock_at 0))
         (ex_conn (start_marker @ BigEndian_PutUint32 4 @ [0, 1, 0, 2]))))))) (ex_path ''120000'')
       = Some (descriptor 0 @ [0, 1, 0, 2])
   \<and> \<not> goes_on (iteration ex_shutdown
      (state_of (iteration ex_shutdown
         (ex_conn (start_marker @ BigEndian_PutUint32 4 @ [0, 1, 0, 2])))))
   \<and> transmissionBuffer (state_of (iteration ex_shutdown
      (state_of (iteration ex_shutdown
         (ex_conn (start_marker @ BigEndian_PutUint32 4 @ [0, 1, 0, 2])))))) = [0, 1, 0, 2]
   \<and> files (os (state_of (iteration ex_shutdown
      (state_of (iteration ex_shutdown
         (ex_conn (start_marker @ BigEndian_PutUint32 4 @ [0, 1, 0, 2]))))))) (ex_path ''120000'')
       = Some (descriptor 0 @ [0, 1, 0, 2])
   \<and> \<not> goes_on (iteration (ex_env (clock_at 0))
      (state_of (iteration (ex_env (clock_at 0))
         (ex_conn (start_marker @ BigEndian_PutUint32 4 @ [0, 1])))))
   \<and> transmissionBuffer (state_of (iteration (ex_env (clock_at 0))
      (state_of (iteration (ex_env (clock_at 0))
         (ex_conn (start_marker @ BigEndian_PutUint32 4 @ [0, 1])))))) = []
   \<and> files (os (state_of (iteration (ex_env (clock_at 0))
      (state_of (iteration (ex_env (clock_at 0))
         (ex_conn (start_marker @ BigEndian_PutUint32 4 @ [0, 1]))))))) (ex_path ''120000'')
       = Some (descriptor 0)"
  using payload_frame_has_no_cap [where
      s = "state_of (iteration (ex_env (clock_at 0))
         (ex_conn (start_marker @ BigEndian_PutUint32 4 @ [0, 1, 0, 2])))"
      and n = 4 and tail = "[0, 1, 0, 2]" and f = 0 and c = "descriptor 0"
      and e = "ex_env (clock_at 0)"]
    payload_frame_has_no_cap [where
      s = "state_of (iteration ex_shutdown
         (ex_conn (start_marker @ BigEndian_PutUint32 4 @ [0, 1, 0, 2])))"
      and n = 4 and tail = "[0, 1, 0, 2]" and f = 0 and c = "descriptor 0"
      and e = ex_shutdown]
    payload_frame_has_no_cap [where
      s = "state_of (iteration (ex_env (clock_at 0))
         (ex_conn (start_marker @ BigEndian_PutUint32 4 @ [0, 1])))"
      and n = 4 and tail = "[0, 1]" and f = 0 and c = "descriptor 0"
      and e = "ex_env (clock_at 0)"]
  by (simp add: model_defs ex_defs ex_shutdown_def)

text \<open>
  The claim as stated fails: a frame whose prefix is 16777216 (16 MiB), far above
  1 MiB (1048576), is read and accepted. After the start marker and that frame the
  loop goes on, the buffer and the file hold the 16777216 payload bytes, and the
  connection is open.
\<close>

theorem payload_cap_counterexample:
  "unat (BigEndian_Uint32 (take 4 (frame (replicate 16777216 0)))) = 16777216
   \<and> (1048576 :: nat) < 16777216
   \<and> goes_on (passes 2 (ex_env (clock_at 0)) (ex_conn (start_marker @ frame (replicate 16777216 0))))
   \<and> transmissionBuffer (state_of (passes 2 (ex_env (clock_at 0))
         (ex_conn (start_marker @ frame (replicate 16777216 0))))) = replicate 16777216 0
   \<and> files (os (state_of (passes 2 (ex_env (clock_at 0))
         (ex_conn (start_marker @ frame (replicate 16777216 0)))))) (ex_path ''120000'')
       = Some (descriptor 0 @ replicate 16777216 0)
   \<and> \<not> conn_closed (state_of (passes 2 (ex_env (clock_at 0))
         (ex_conn (start_marker @ frame (replicate 16777216 0)))))"
proof -
  let ?big = "replicate 16777216 (0 :: byte)"
  let ?e = "ex_env (clock_at 0)"
  have ok: "payload_ok ?big"
    by (simp add: payload_ok_def)
  have pre: "unat (BigEndian_Uint32 (take 4 (frame ?big))) = 16777216"
    by (simp add: take_frame BigEndian_roundtrip)
  obtain s1 where s1: "iteration ?e (ex_conn (start_marker @ frame ?big)) = Continue s1"
      "recording s1 0 (ex_path ''120000'') []" "conn_in s1 = frame ?big" "polls s1 = 1"
      "\<not> conn_closed s1"
    using ex_start[of 0 "frame ?big"] by blast
  have c: "conn_in s1 = frame ?big @ []"
    by (simp add: s1(3))
  have nd: "\<not> ctx_Done ?e (polls s1)"
    by (simp add: ex_env_def)
  obtain s2 where s2: "iteration ?e s1 = Continue s2"
      "recording s2 0 (ex_path ''120000'') ([] @ ?big)" "conn_closed s2 = conn_closed s1"
    using iteration_frame[OF s1(2) c ok nd] by blast
  have p: "passes 2 ?e (ex_conn (start_marker @ frame ?big)) = Continue s2"
    using s1(1) s2(1) by (simp add: passes_numeral)
  show ?thesis
    using s2(2,3) s1(5) by (simp add: p pre goes_on_def state_of_def recording_def)
qed

subsection \<open>The end marker\<close>

text \<open>
  Claim C3. The handler is receiving into an open file that holds a header and the
  payload written so far, and reads an end marker; \<open>d\<close> is the time since the start
  marker, by the clock reading taken now. If \<open>d\<close> is less than one second, the file is
  closed and deleted, no other file changes and no subprocess is run (no header
  patch, no resample). If \<open>d\<close> is one second or more (exactly one second included),
  the transcoder is run on the file, which is closed and which then holds the header
  patched with the byte count \<^verbatim>\<open>uint32(len(transmissionBuffer))\<close> followed by the
  payload. In both cases the handler is no longer receiving, does not panic, and
  goes on unless the context is found cancelled. The file name has at least four
  bytes, as every name \<open>createWavFile\<close> makes has.
\<close>

theorem end_marker_commits_or_drops:
  assumes "isReceivingTransmission s"
    and "wavfile s = Some h" and "h < length (fds (os s))" and "\<not> closed (fds (os s) ! h)"
    and "fname (fds (os s) ! h) = name" and "4 \<le> length name"
    and "files (os s) name = Some (descriptor d0 @ payload)"
    and "conn_in s = end_marker @ rest"
    and "d = saturate (clock e (now_calls s) - transmissionStartTime s)"
    and "s' = state_of (iteration e s)"
  shows "(d < Second \<longrightarrow>
            closed (fds (os s') ! h) \<and> files (os s') name = None
            \<and> cmds (os s') = cmds (os s)
            \<and> (\<forall>p. p \<noteq> name \<longrightarrow> files (os s') p = files (os s) p))
       \<and> (Second \<le> d \<longrightarrow>
            closed (fds (os s') ! h) \<and> wavfile s' = None
            \<and> cmds (os s') = cmds (os s) @
                 [\<lparr>Args = [''ffmpeg'', ''-i'', name, ''-ar'', ''16000'', ''-ac'', ''1'', ''-y'',
                            take (length name - 4) name @ ''_whisper.wav''],
                   input_seen =
                     Some (descriptor (of_nat (length (transmissionBuffer s))) @ payload)\<rparr>])
       \<and> \<not> isReceivingTransmission s' \<and> conn_in s' = rest
       \<and> goes_on (iteration e s) = (\<not> ctx_Done e (polls s))"
proof (cases "d < Second")
  case True
  have c: "files (os s) (fname (fds (os s) ! h)) = Some (descriptor d0 @ payload)"
    using assms(5,7) by simp
  have sh: "saturate (clock e (now_calls s) - transmissionStartTime s) < Second"
    using True assms(9) by simp
  show ?thesis
    using True assms(3,5)
    by (simp add: assms(10) iteration_end_short[OF assms(8,2,3,4) c sh] ctx_poll_def state_of_def
        goes_on_def)
next
  case False
  have lg: "\<not> saturate (clock e (now_calls s) - transmissionStartTime s) < Second"
    using False assms(9) by simp
  show ?thesis
    using False assms(3)
    by (simp add: assms(10) iteration_end_long[OF assms(8,2,3,4,5,7,6) lg] ctx_poll_def
        state_of_def goes_on_def Let_def)
qed


text \<open>The state before the end marker of the example utterance.\<close>

lemma ex_recorded_facts:
  "recording (ex_recorded t) 0 (ex_path ''120000'') [0, 1, 0, 2]
   \<and> conn_in (ex_recorded t) = end_marker @ []
   \<and> now_calls (ex_recorded t) = 3 \<and> transmissionStartTime (ex_recorded t) = 0
   \<and> cmds (os (ex_recorded t)) = [] \<and> polls (ex_recorded t) = 2"
proof -
  let ?e = "ex_env (clock_at t)"
  obtain s1 where s1: "iteration ?e (ex_conn (start_marker @ frame [0, 1, 0, 2] @ end_marker))
        = Continue s1"
      "recording s1 0 (ex_path ''120000'') []" "conn_in s1 = frame [0, 1, 0, 2] @ end_marker"
      "polls s1 = 1" "now_calls s1 = 3" "transmissionStartTime s1 = 0" "cmds (os s1) = []"
    using ex_start[of t "frame [0, 1, 0, 2] @ end_marker"] by blast
  have ok: "payload_ok [0, 1, 0, 2]"
    by (simp add: payload_ok_def)
  have nd: "\<not> ctx_Done ?e (polls s1)"
    by (simp add: ex_env_def)
  obtain s2 where s2: "iteration ?e s1 = Continue s2"
      "recording s2 0 (ex_path ''120000'') ([] @ [0, 1, 0, 2])" "conn_in s2 = end_marker"
      "polls s2 = Suc (polls s1)" "now_calls s2 = now_calls s1"
      "transmissionStartTime s2 = transmissionStartTime s1" "cmds (os s2) = cmds (os s1)"
    using iteration_frame[OF s1(2,3) ok nd] by blast
  have "ex_recorded t = s2"
    using s1(1) s2(1) by (simp add: ex_recorded_def passes_numeral state_of_def)
  then show ?thesis
    using s1 s2 by simp
qed

theorem end_marker_commits_or_drops_witness:
  "saturate (clock (ex_env (clock_at 1000000000)) (now_calls (ex_recorded 1000000000))
      - transmissionStartTime (ex_recorded 1000000000)) = Second
   \<and> cmds (os (state_of (iteration (ex_env (clock_at 1000000000)) (ex_recorded 1000000000)))) =
       [\<lparr>Args = [''ffmpeg'', ''-i'', ex_path ''120000'', ''-ar'', ''16000'', ''-ac'', ''1'', ''-y'',
                  ex_path ''120000_whisper''],
         input_seen = Some (descriptor 4 @ [0, 1, 0, 2])\<rparr>]
   \<and> closed (fds (os (state_of (iteration (ex_env (clock_at 1000000000))
         (ex_recorded 1000000000)))) ! 0)
   \<and> saturate (clock (ex_env (clock_at 999999999)) (now_calls (ex_recorded 999999999))
      - transmissionStartTime (ex_recorded 999999999)) < Second
   \<and> files (os (state_of (iteration (ex_env (clock_at 999999999)) (ex_recorded 999999999))))
        (ex_path ''120000'') = None
   \<and> cmds (os (state_of (iteration (ex_env (clock_at 999999999)) (ex_recorded 999999999)))) = []
   \<and> closed (fds (os (state_of (iteration (ex_env (clock_at 999999999))
         (ex_recorded 999999999)))) ! 0)"
  using end_marker_commits_or_drops [of "ex_recorded 1000000000" 0 "ex_path ''120000''" 0
      "[0, 1, 0, 2]" "[]" Second "ex_env (clock_at 1000000000)"
      "state_of (iteration (ex_env (clock_at 1000000000)) (ex_recorded 1000000000))"]
    end_marker_commits_or_drops [of "ex_recorded 999999999" 0 "ex_path ''120000''" 0
      "[0, 1, 0, 2]" "[]" 999999999 "ex_env (clock_at 999999999)"
      "state_of (iteration (ex_env (clock_at 999999999)) (ex_recorded 999999999))"]
    ex_recorded_facts [of 1000000000] ex_recorded_facts [of 999999999]
  by (simp add: recording_def ex_env_def clock_at_def ex_path_def ex_id_def Second_def
      saturate_def)

subsection \<open>The data size of a finalized container\<close>

text \<open>
  Claim C5, as amended. A start marker, payload frames with the payloads \<open>ps\<close> and an end
  marker a second or more later are read, with no failure to create the file and no
  cancellation before the end marker. Then the transcoder is run on a container that
  is the descriptor followed by all the payload bytes, in order, and whose data-size
  field holds the number of payload bytes converted to 32 bits: its value is that
  number modulo \<open>2^32\<close>, which is the number itself when fewer than \<open>2^32\<close> bytes were
  received.
\<close>

theorem data_size_is_byte_count_mod_2_32:
  assumes "conn_in s = start_marker @ concat (map frame ps) @ end_marker @ rest"
    and "\<forall>p\<in>set ps. payload_ok p"
    and "\<not> MkdirAll_fails e (now_calls s + 2)"
    and "\<not> Create_fails e (now_calls s + 3)"
    and "\<forall>k\<le>length ps. \<not> ctx_Done e (polls s + k)"
    and "Second \<le> saturate (clock e (now_calls s + 3) - clock e (now_calls s))"
    and "name = wav_path e (clock e (now_calls s + 1)) (clock e (now_calls s + 2))"
  shows "\<exists>s' container.
           passes (length ps + 2) e s = ctx_poll e s'
           \<and> cmds (os s') = cmds (os s) @
                 [\<lparr>Args = [''ffmpeg'', ''-i'', name, ''-ar'', ''16000'', ''-ac'', ''1'', ''-y'',
                            take (length name - 4) name @ ''_whisper.wav''],
                   input_seen = Some container\<rparr>]
           \<and> container = descriptor (of_nat (length (concat ps))) @ concat ps
           \<and> drop 44 container = concat ps
           \<and> LittleEndian_Uint32 (take 4 (drop 40 container)) = of_nat (length (concat ps))
           \<and> unat (LittleEndian_Uint32 (take 4 (drop 40 container)))
               = length (concat ps) mod 2 ^ 32
           \<and> (length (concat ps) < 2 ^ 32 \<longrightarrow>
                unat (LittleEndian_Uint32 (take 4 (drop 40 container))) = length (concat ps))"
proof -
  let ?c = "descriptor (of_nat (length (concat ps))) @ concat ps"
  obtain s' where s': "passes (length ps + 2) e s = ctx_poll e s'"
      "cmds (os s') = cmds (os s) @
         [\<lparr>Args = [''ffmpeg'', ''-i'', name, ''-ar'', ''16000'', ''-ac'', ''1'', ''-y'',
                    take (length name - 4) name @ ''_whisper.wav''],
           input_seen = Some ?c\<rparr>]"
    using utterance[OF assms refl] by blast
  have d: "LittleEndian_Uint32 (take 4 (drop 40 ?c)) = of_nat (length (concat ps))"
    by (rule descriptor_data_size)
  have u: "unat (of_nat (length (concat ps)) :: 32 word) = length (concat ps) mod 2 ^ 32"
    by (simp add: unat_of_nat)
  have p: "drop 44 ?c = concat ps"
    by simp
  have m: "unat (LittleEndian_Uint32 (take 4 (drop 40 ?c))) = length (concat ps) mod 2 ^ 32"
    unfolding d by (rule u)
  have l: "length (concat ps) < 2 ^ 32 \<longrightarrow>
      unat (LittleEndian_Uint32 (take 4 (drop 40 ?c))) = length (concat ps)"
    unfolding m by simp
  show ?thesis
    by (intro exI[of _ s'] exI[of _ ?c] conjI s' refl p d m l)
qed

theorem data_size_is_byte_count_mod_2_32_witness:
  "input_seen (last (cmds (os (state_of (passes 3 (ex_env (clock_at 1000000000))
       (ex_conn (start_marker @ frame [0, 1, 0, 2] @ end_marker)))))))
     = Some (descriptor 4 @ [0, 1, 0, 2])
   \<and> unat (LittleEndian_Uint32 (take 4 (drop 40 (descriptor 4 @ [0, 1, 0, 2])))) = 4"
proof -
  let ?e = "ex_env (clock_at 1000000000)"
  let ?s = "ex_conn (start_marker @ frame [0, 1, 0, 2] @ end_marker)"
  have w: "wav_path ?e (clock ?e (now_calls ?s + 1)) (clock ?e (now_calls ?s + 2))
      = ex_path ''120000''"
    by (rule ex_wav_path) (simp add: ex_env_def ex_conn_def clock_at_def Second_def)
  have h1: "conn_in ?s = start_marker @ concat (map frame [[0, 1, 0, 2]]) @ end_marker @ []"
    by (simp add: ex_conn_def)
  have h2: "\<forall>p\<in>set [[0, 1, 0, 2 :: byte]]. payload_ok p"
    by (simp add: payload_ok_def)
  have h3: "\<not> MkdirAll_fails ?e (now_calls ?s + 2)" and h4: "\<not> Create_fails ?e (now_calls ?s + 3)"
    and h5: "\<forall>k\<le>length [[0, 1, 0, 2 :: byte]]. \<not> ctx_Done ?e (polls ?s + k)"
    by (simp_all add: ex_env_def)
  have h6: "Second \<le> saturate (clock ?e (now_calls ?s + 3) - clock ?e (now_calls ?s))"
    by (simp add: ex_env_def ex_conn_def clock_at_def Second_def saturate_def)
  obtain s' container where r: "passes (length [[0, 1, 0, 2 :: byte]] + 2) ?e ?s = ctx_poll ?e s'"
      "cmds (os s') = cmds (os ?s) @
         [\<lparr>Args = [''ffmpeg'', ''-i'', ex_path ''120000'', ''-ar'', ''16000'', ''-ac'', ''1'', ''-y'',
                    take (length (ex_path ''120000'') - 4) (ex_path ''120000'') @ ''_whisper.wav''],
           input_seen = Some container\<rparr>]"
      "container = descriptor (of_nat (length (concat [[0, 1, 0, 2 :: byte]]))) @ concat [[0, 1, 0, 2]]"
    using data_size_is_byte_count_mod_2_32 [OF h1 h2 h3 h4 h5 h6 w[symmetric]] by blast
  have n3: "length [[0, 1, 0, 2 :: byte]] + 2 = 3"
    by simp
  have p3: "passes 3 ?e ?s = ctx_poll ?e s'"
    using r(1) unfolding n3 .
  have e0: "cmds (os ?s) = []"
    by (simp add: ex_conn_def)
  show ?thesis
    using r(2,3) by (simp add: p3 e0 descriptor_data_size[of 4 "[0, 1, 0, 2]", simplified])
qed


text \<open>
  The claim as stated fails when an utterance carries \<open>2^32\<close> bytes or more: after two
  payloads of \<open>2^31\<close> bytes each, the container handed to the transcoder holds
  4294967296 payload bytes and a data-size field of 0.
\<close>

theorem data_size_counterexample:
  "length (ex_big @ ex_big) = 4294967296
   \<and> input_seen (last (cmds (os (state_of (passes 4 (ex_env (clock_at 2000000000))
         (ex_conn (start_marker @ frame ex_big @ frame ex_big @ end_marker)))))))
       = Some (descriptor 0 @ ex_big @ ex_big)
   \<and> unat (LittleEndian_Uint32 (take 4 (drop 40 (descriptor 0 @ ex_big @ ex_big)))) = 0"
proof -
  let ?e = "ex_env (clock_at 2000000000)"
  let ?s = "ex_conn (start_marker @ frame ex_big @ frame ex_big @ end_marker)"
  have len: "length (ex_big @ ex_big) = 4294967296"
    by (simp add: ex_big_def)
  have z: "(of_nat (length (concat [ex_big, ex_big])) :: 32 word) = 0"
    using len by simp
  have h1: "conn_in ?s = start_marker @ concat (map frame [ex_big, ex_big]) @ end_marker @ []"
    by (simp add: ex_conn_def)
  have h2: "\<forall>p\<in>set [ex_big, ex_big]. payload_ok p"
    by (simp add: payload_ok_def ex_big_def)
  have h3: "\<not> MkdirAll_fails ?e (now_calls ?s + 2)" and h4: "\<not> Create_fails ?e (now_calls ?s + 3)"
    and h5: "\<forall>k\<le>length [ex_big, ex_big]. \<not> ctx_Done ?e (polls ?s + k)"
    by (simp_all add: ex_env_def)
  have h6: "Second \<le> saturate (clock ?e (now_calls ?s + 3) - clock ?e (now_calls ?s))"
    by (simp add: ex_env_def ex_conn_def clock_at_def Second_def saturate_def)
  obtain s' where r: "passes (length [ex_big, ex_big] + 2) ?e ?s = ctx_poll ?e s'"
      "cmds (os s') = cmds (os ?s) @
         [\<lparr>Args = [''ffmpeg'', ''-i'',
                    wav_path ?e (clock ?e (now_calls ?s + 1)) (clock ?e (now_calls ?s + 2)),
                    ''-ar'', ''16000'', ''-ac'', ''1'', ''-y'',
                    take (length (wav_path ?e (clock ?e (now_calls ?s + 1))
                                   (clock ?e (now_calls ?s + 2))) - 4)
                      (wav_path ?e (clock ?e (now_calls ?s + 1)) (clock ?e (now_calls ?s + 2)))
                      @ ''_whisper.wav''],
           input_seen = Some (descriptor (of_nat (length (concat [ex_big, ex_big])))
                                @ concat [ex_big, ex_big])\<rparr>]"
    using utterance [OF h1 h2 h3 h4 h5 h6 refl refl] by blast
  have n4: "length [ex_big, ex_big] + 2 = 4"
    by simp
  have p4: "passes 4 ?e ?s = ctx_poll ?e s'"
    using r(1) unfolding n4 .
  have i: "input_seen (last (cmds (os s'))) = Some (descriptor 0 @ ex_big @ ex_big)"
    unfolding r(2) z by simp
  have d: "unat (LittleEndian_Uint32 (take 4 (drop 40 (descriptor 0 @ ex_big @ ex_big)))) = 0"
    unfolding descriptor_data_size by simp
  show ?thesis
    using len i d by (simp add: p4)
qed

subsection \<open>A connection that ends in the middle of a payload\<close>

text \<open>
  Claim C1 does not hold of the code. A peer sends a start marker and the prefix of a
  payload of four bytes, then two bytes, and disconnects. Whatever the clock reads
  afterwards (\<open>t\<close>), \<open>handleConnection\<close> returns with the file closed by the deferred
  function and otherwise as the start marker left it: it is still under its own name
  and holds the placeholder header. It was neither deleted, as the policy for an
  incomplete utterance asks when less than a second has passed, nor renamed with the
  suffix \<open>.incomplete\<close>, as it asks otherwise; the clock is not even read.
\<close>

theorem payload_eof_skips_incomplete_policy:
  "handleConnection (ex_env (clock_at t))
     (ex_conn (start_marker @ BigEndian_PutUint32 4 @ [0, 1])) =
   Return
     \<lparr>conn_in = [], conn_out = replicate 15 0 @ [1], conn_closed = True, clientList = {},
      transmissionBuffer = [], isReceivingTransmission = True, wavfile = Some 0,
      transmissionStartTime = 0,
      os = \<lparr>files = [ex_path ''120000'' \<mapsto> descriptor 0],
             fds = [\<lparr>fname = ex_path ''120000'', offset = 44, closed = True\<rparr>],
             cmds = []\<rparr>,
      now_calls = 3, polls = 1\<rparr>"
  by (simp add: model_defs ex_defs)

text \<open>
  The sibling path does apply the policy: when the connection ends where a prefix is
  expected, the file is renamed after two seconds and deleted after none.
\<close>

lemma marker_eof_applies_incomplete_policy:
  "handleConnection (ex_env (clock_at 2000000000)) (ex_conn (start_marker @ frame [0, 1])) =
   Return
     \<lparr>conn_in = [], conn_out = replicate 15 0 @ [1], conn_closed = True, clientList = {},
      transmissionBuffer = [0, 1], isReceivingTransmission = True, wavfile = Some 0,
      transmissionStartTime = 0,
      os = \<lparr>files = [ex_path ''120000'' @ ''.incomplete'' \<mapsto> descriptor 0 @ [0, 1]],
             fds = [\<lparr>fname = ex_path ''120000'', offset = 46, closed = True\<rparr>],
             cmds = []\<rparr>,
      now_calls = 4, polls = 2\<rparr>"
  "handleConnection (ex_env (clock_at 0)) (ex_conn (start_marker @ frame [0, 1])) =
   Return
     \<lparr>conn_in = [], conn_out = replicate 15 0 @ [1], conn_closed = True, clientList = {},
      transmissionBuffer = [0, 1], isReceivingTransmission = True, wavfile = Some 0,
      transmissionStartTime = 0,
      os = \<lparr>files = Map.empty,
             fds = [\<lparr>fname = ex_path ''120000'', offset = 46, closed = True\<rparr>],
             cmds = []\<rparr>,
      now_calls = 4, polls = 2\<rparr>"
  by (simp_all add: model_defs ex_defs)

subsection \<open>A start marker while receiving\<close>

text \<open>
  Claim C6 does not hold of the code. A peer sends two start markers and disconnects.
  The second start marker opens a second file while the first is open: the variable
  \<^verbatim>\<open>file\<close> is overwritten, and nothing closes, finishes, deletes or renames the
  first file. After the second pass the handler holds descriptor 1 and descriptor 0
  is open; when \<open>handleConnection\<close> has returned, descriptor 0 is still open and the first
  file is on disk under its own name with the placeholder header. (The second file,
  less than a second old, was deleted by the policy for incomplete utterances.)
\<close>

theorem second_start_leaks_first_file:
  "wavfile (state_of (passes 2 (ex_env (clock_at 1500000000))
      (ex_conn (start_marker @ start_marker)))) = Some 1
   \<and> fds (os (state_of (passes 2 (ex_env (clock_at 1500000000))
        (ex_conn (start_marker @ start_marker))))) =
       [\<lparr>fname = ex_path ''120000'', offset = 44, closed = False\<rparr>,
        \<lparr>fname = ex_path ''120001'', offset = 44, closed = False\<rparr>]
   \<and> handleConnection (ex_env (clock_at 1500000000)) (ex_conn (start_marker @ start_marker)) =
       Return
         \<lparr>conn_in = [], conn_out = replicate 15 0 @ [1], conn_closed = True, clientList = {},
          transmissionBuffer = [], isReceivingTransmission = True, wavfile = Some 1,
          transmissionStartTime = 1500000000,
          os = \<lparr>files = [ex_path ''120000'' \<mapsto> descriptor 0],
                 fds = [\<lparr>fname = ex_path ''120000'', offset = 44, closed = False\<rparr>,
                        \<lparr>fname = ex_path ''120001'', offset = 44, closed = True\<rparr>],
                 cmds = []\<rparr>,
          now_calls = 7, polls = 2\<rparr>"
  by (simp add: passes_numeral model_defs ex_defs)

end
